theory Spec2Isabelle
  imports Main "HOL-Library.Sublist" "HOL-Library.Word"
begin

section \<open>Go strings and formatting\<close>

text \<open>
  A Go string is a sequence of bytes; it is modelled as a \<open>string\<close> (a list of
  \<open>char\<close>, one per byte), so \<open>length\<close> is Go's \<open>len\<close>. The functions of package
  \<open>strings\<close> that the program calls are written out below. \<open>strings.Contains s sub\<close> is
  the contiguous-sublist test \<open>sublist sub s\<close> of the library. An \<open>error\<close> is the text
  of its message.
\<close>

type_synonym error = string

definition HasPrefix :: "string \<Rightarrow> string \<Rightarrow> bool" where
  "HasPrefix s pre = (length pre \<le> length s \<and> take (length pre) s = pre)"

definition TrimPrefix :: "string \<Rightarrow> string \<Rightarrow> string" where
  "TrimPrefix s pre = (if HasPrefix s pre then drop (length pre) s else s)"

definition Contains :: "string \<Rightarrow> string \<Rightarrow> bool" where
  "Contains s substr = sublist substr s"

text \<open>
  Both \<open>strings.TrimSpace\<close> and \<open>strings.ToLower\<close> read a string as UTF-8 once they meet a
  byte outside ASCII. \<open>DecodeRuneInString\<close> is the decoder of package \<open>utf8\<close>: the rune
  at the front of the string and its width in bytes. A byte that does not start a
  well-formed encoding (a stray continuation byte, a truncated or overlong sequence, a
  surrogate, a value past U+10FFFF) decodes to \<open>RuneError\<close>, U+FFFD, with width 1. A rune
  is an \<open>int\<close>, a byte a \<open>nat\<close>.
\<close>

definition RuneError :: int where
  "RuneError = 0xFFFD"

definition DecodeRuneInString :: "string \<Rightarrow> int \<times> nat" where
  "DecodeRuneInString s =
     (case s of
        [] \<Rightarrow> (RuneError, 0)
      | c0 # cs \<Rightarrow>
          (let s0 = (of_char c0 :: nat) in
           if s0 < 0x80 then (int s0, 1)
           else if s0 < 0xC2 \<or> 0xF4 < s0 then (RuneError, 1)
           else
             (let sz = (if s0 < 0xE0 then 2 else if s0 < 0xF0 then 3 else (4 :: nat));
                  lo = (if s0 = 0xE0 then 0xA0 else if s0 = 0xF0 then 0x90 else (0x80 :: nat));
                  hi = (if s0 = 0xED then 0x9F else if s0 = 0xF4 then 0x8F else (0xBF :: nat))
              in if length s < sz then (RuneError, 1)
                 else
                   (let s1 = (of_char (s ! 1) :: nat) in
                    if s1 < lo \<or> hi < s1 then (RuneError, 1)
                    else if sz \<le> 2 then (int (s0 mod 0x20 * 0x40 + s1 mod 0x40), 2)
                    else
                      (let s2 = (of_char (s ! 2) :: nat) in
                       if s2 < 0x80 \<or> 0xBF < s2 then (RuneError, 1)
                       else if sz \<le> 3 then
                         (int (s0 mod 0x10 * 0x1000 + s1 mod 0x40 * 0x40 + s2 mod 0x40), 3)
                       else
                         (let s3 = (of_char (s ! 3) :: nat) in
                          if s3 < 0x80 \<or> 0xBF < s3 then (RuneError, 1)
                          else
                            (int (s0 mod 8 * 0x40000 + s1 mod 0x40 * 0x1000 +
                                  s2 mod 0x40 * 0x40 + s3 mod 0x40), 4)))))))"

text \<open>
  \<open>DecodeLastRuneInString\<close> is the decoder for the rune at the end. From the byte before
  the last it steps back over at most three bytes to a byte that can start a rune (one
  that is not a continuation byte), decodes from there, and accepts the rune when it
  ends exactly at the end of the string. The library's loop is written out here, one
  test per step.
\<close>

definition RuneStart :: "nat \<Rightarrow> bool" where
  "RuneStart b = (\<not> (0x80 \<le> b \<and> b < 0xC0))"

definition DecodeLastRuneInString :: "string \<Rightarrow> int \<times> nat" where
  "DecodeLastRuneInString s =
     (let n = length s in
      if n = 0 then (RuneError, 0)
      else
        (let r = (of_char (s ! (n - 1)) :: nat) in
         if r < 0x80 then (int r, 1)
         else
           (let start =
                  (if 2 \<le> n \<and> RuneStart (of_char (s ! (n - 2))) then n - 2
                   else if 3 \<le> n \<and> RuneStart (of_char (s ! (n - 3))) then n - 3
                   else if 4 \<le> n \<and> RuneStart (of_char (s ! (n - 4))) then n - 4
                   else n - 5)
            in case DecodeRuneInString (drop start s) of
                 (r, width) \<Rightarrow> if start + width \<noteq> n then (RuneError, 1) else (r, width))))"

text \<open>
  \<open>unicode.IsSpace\<close>: in Latin-1 the six ASCII white space characters, U+0085 and
  U+00A0; beyond it the code points with the property White_Space.
\<close>

definition IsSpace :: "int \<Rightarrow> bool" where
  "IsSpace r =
     (if 0 \<le> r \<and> r \<le> 0xFF then r \<in> {0x09, 0x0A, 0x0B, 0x0C, 0x0D, 0x20, 0x85, 0xA0}
      else r = 0x1680 \<or> (0x2000 \<le> r \<and> r \<le> 0x200A) \<or> r = 0x2028 \<or> r = 0x2029 \<or>
           r = 0x202F \<or> r = 0x205F \<or> r = 0x3000)"

text \<open>
  \<open>strings.TrimLeftFunc\<close> and \<open>strings.TrimRightFunc\<close> drop the runes that satisfy \<open>f\<close>
  from the front and from the end; \<open>strings.TrimFunc\<close> does both.
\<close>

function TrimLeftFunc :: "(int \<Rightarrow> bool) \<Rightarrow> string \<Rightarrow> string" where
  "TrimLeftFunc f s =
     (if s = [] then []
      else (case DecodeRuneInString s of
              (r, width) \<Rightarrow> if f r then TrimLeftFunc f (drop width s) else s))"
  by pat_completeness auto
termination
  by (relation "measure (\<lambda>(f, s). length s)")
     (auto simp: DecodeRuneInString_def Let_def split: list.splits if_splits)

function TrimRightFunc :: "(int \<Rightarrow> bool) \<Rightarrow> string \<Rightarrow> string" where
  "TrimRightFunc f s =
     (if s = [] then []
      else (case DecodeLastRuneInString s of
              (r, width) \<Rightarrow> if f r then TrimRightFunc f (take (length s - width) s) else s))"
  by pat_completeness auto
termination
  by (relation "measure (\<lambda>(f, s). length s)")
     (auto simp add: DecodeLastRuneInString_def Let_def length_greater_0_conv [symmetric]
        simp del: length_greater_0_conv split: prod.splits if_splits)

declare TrimLeftFunc.simps [simp del]

declare TrimRightFunc.simps [simp del]

definition TrimFunc :: "(int \<Rightarrow> bool) \<Rightarrow> string \<Rightarrow> string" where
  "TrimFunc f s = TrimRightFunc f (TrimLeftFunc f s)"

text \<open>
  \<open>strings.TrimSpace\<close>. It first skips the ASCII white space bytes at the front (tab, line
  feed, vertical tab, form feed, carriage return, space); when it meets a byte outside
  ASCII there it hands the rest to \<open>TrimFunc\<close> with \<open>unicode.IsSpace\<close>. Otherwise it skips
  the ASCII white space bytes at the end, and hands over to \<open>TrimRightFunc\<close> when it meets
  a byte outside ASCII there.
\<close>

definition asciiSpace :: "char \<Rightarrow> bool" where
  "asciiSpace c = ((of_char c :: nat) \<in> {0x09, 0x0A, 0x0B, 0x0C, 0x0D, 0x20})"

definition TrimSpace :: "string \<Rightarrow> string" where
  "TrimSpace s =
     (let rest = dropWhile asciiSpace s in
      case rest of
        [] \<Rightarrow> []
      | c # cs \<Rightarrow>
          if 0x80 \<le> (of_char c :: nat) then TrimFunc IsSpace rest
          else
            (let kept = rev (dropWhile asciiSpace (rev rest)) in
             if 0x80 \<le> (of_char (last kept) :: nat) then TrimRightFunc IsSpace kept
             else kept))"

text \<open>
  \<open>strings.ToLower\<close>. A string of ASCII bytes has its letters \<open>A\<close> to \<open>Z\<close> moved to \<open>a\<close> to
  \<open>z\<close>. Any other string goes through \<open>strings.Map\<close> with \<open>unicode.ToLower\<close>: each rune of
  the string (\<open>RuneError\<close> for a byte that does not decode) is mapped and written back in
  UTF-8, a negative result being dropped. \<open>unicode.ToLower\<close> maps an ASCII rune itself and
  looks every other rune up in the case table of the Unicode version that the library
  was built from. That table is not part of the program: it is the parameter
  \<open>lowerCase\<close> of \<open>ToLower\<close> and of what calls it.
\<close>

definition lower_byte :: "char \<Rightarrow> char" where
  "lower_byte c =
     (let n = (of_char c :: nat) in if 65 \<le> n \<and> n \<le> 90 then char_of (n + 32) else c)"

definition unicode_ToLower :: "(int \<Rightarrow> int) \<Rightarrow> int \<Rightarrow> int" where
  "unicode_ToLower lowerCase r =
     (if r \<le> 0x7F then (if 65 \<le> r \<and> r \<le> 90 then r + 32 else r) else lowerCase r)"

text \<open>
  The UTF-8 encoding of a rune that is not negative; a surrogate and a value past
  U+10FFFF are written as \<open>RuneError\<close>.
\<close>

definition EncodeRune :: "int \<Rightarrow> string" where
  "EncodeRune r =
     (let n = nat r in
      if n \<le> 0x7F then [char_of n]
      else if n \<le> 0x7FF then [char_of (0xC0 + n div 0x40), char_of (0x80 + n mod 0x40)]
      else if 0x10FFFF < n \<or> (0xD800 \<le> n \<and> n \<le> 0xDFFF) then
        [char_of (0xEF :: nat), char_of (0xBF :: nat), char_of (0xBD :: nat)]
      else if n \<le> 0xFFFF then
        [char_of (0xE0 + n div 0x1000), char_of (0x80 + n div 0x40 mod 0x40),
         char_of (0x80 + n mod 0x40)]
      else
        [char_of (0xF0 + n div 0x40000), char_of (0x80 + n div 0x1000 mod 0x40),
         char_of (0x80 + n div 0x40 mod 0x40), char_of (0x80 + n mod 0x40)])"

function Map :: "(int \<Rightarrow> int) \<Rightarrow> string \<Rightarrow> string" where
  "Map mapping s =
     (if s = [] then []
      else (case DecodeRuneInString s of
              (c, width) \<Rightarrow>
                (let r = mapping c in (if 0 \<le> r then EncodeRune r else [])) @
                Map mapping (drop width s)))"
  by pat_completeness auto
termination
  by (relation "measure (\<lambda>(mapping, s). length s)")
     (auto simp: DecodeRuneInString_def Let_def split: list.splits if_splits)

declare Map.simps [simp del]

definition ToLower :: "(int \<Rightarrow> int) \<Rightarrow> string \<Rightarrow> string" where
  "ToLower lowerCase s =
     (if list_all (\<lambda>c. (of_char c :: nat) < 0x80) s then map lower_byte s
      else Map (unicode_ToLower lowerCase) s)"

text \<open>
  \<open>strings.Split s sep\<close> for a separator of one byte (the program splits on line feed
  and on the bar): the pieces between the separators, so one piece more than there are
  separators, and the one piece \<open>s\<close> itself when there is none.
\<close>

fun Split :: "string \<Rightarrow> char \<Rightarrow> string list" where
  "Split [] sep = [[]]"
| "Split (c # cs) sep =
     (if c = sep then [] # Split cs sep
      else (case Split cs sep of
              [] \<Rightarrow> [[c]]
            | w # ws \<Rightarrow> (c # w) # ws))"

text \<open>The verbs of \<open>fmt.Sprintf\<close>: \<open>%d\<close> prints an integer in decimal, \<open>%v\<close> a bool.\<close>

function nat_digits :: "nat \<Rightarrow> string" where
  "nat_digits n =
     (if n < 10 then [char_of (48 + n)]
      else nat_digits (n div 10) @ [char_of (48 + n mod 10)])"
  by pat_completeness auto
termination
  by (relation "measure id") auto

declare nat_digits.simps [simp del]

definition fmt_d :: "int \<Rightarrow> string" where
  "fmt_d i = (if i < 0 then ''-'' @ nat_digits (nat (- i)) else nat_digits (nat i))"

definition fmt_v :: "bool \<Rightarrow> string" where
  "fmt_v b = (if b then ''true'' else ''false'')"

section \<open>AI provider gateway (package ai)\<close>

text \<open>
  \<open>Options\<close> carries a \<open>float64\<close> temperature; its type is left open, since no provider
  modelled here reads it.
\<close>

record 'f Options =
  Temperature :: 'f
  MaxTokens :: int
  Model :: string
  SystemPrompt :: string
  StopSequences :: "string list"

record Response =
  Content :: string
  Model :: string
  TokensUsed :: int
  FinishReason :: string

text \<open>
  A provider, as its callers use it: \<open>Generate\<close> from the prompt to a response or an
  error. The context and the options, which every caller sets to \<open>DefaultOptions()\<close>,
  are fixed when the provider value is built.
\<close>

type_synonym Provider = "string \<Rightarrow> error + Response"

text \<open>The three prewritten answers of \<open>generateMockResponse\<close>.\<close>

definition restartResponse :: string where
  "restartResponse =
     ''To restart pods, I recommend using a rolling restart approach:\<newline>'' @
     ''\<newline>'' @
     ''1. kubectl rollout restart deployment <deployment-name> -n <namespace>\<newline>'' @
     ''\<newline>'' @
     ''This will gracefully restart all pods in the deployment without downtime.\<newline>'' @
     ''\<newline>'' @
     ''Alternative: Delete specific pods to trigger recreation:\<newline>'' @
     ''kubectl delete pod <pod-name> -n <namespace>\<newline>'' @
     ''\<newline>'' @
     ''The scheduler will automatically create new pods to replace them.''"

definition diagnoseResponse :: string where
  "diagnoseResponse =
     ''Based on the diagnostics:\<newline>'' @
     ''\<newline>'' @
     ''Issue: CrashLoopBackOff detected\<newline>'' @
     ''Root Cause: Application is likely failing at startup due to:\<newline>'' @
     ''  - Missing environment variables\<newline>'' @
     ''  - Database connection failure\<newline>'' @
     ''  - Invalid configuration\<newline>'' @
     ''\<newline>'' @
     ''Recommended Actions:\<newline>'' @
     ''1. Check logs: kubectl logs <pod-name> -n <namespace>\<newline>'' @
     ''2. Describe pod: kubectl describe pod <pod-name> -n <namespace>\<newline>'' @
     ''3. Verify configmaps and secrets are mounted correctly\<newline>'' @
     ''4. Check resource limits - pod may be OOMKilled''"

definition scaleResponse :: string where
  "scaleResponse =
     ''To scale the deployment:\<newline>'' @
     ''\<newline>'' @
     ''kubectl scale deployment <deployment-name> --replicas=<count> -n <namespace>\<newline>'' @
     ''\<newline>'' @
     ''This will adjust the number of pod replicas to the specified count.\<newline>'' @
     ''Use '' @ [CHR 0x27] @ ''kubectl get deployment'' @ [CHR 0x27] @ '' to verify the scaling operation.''"

definition generateMockResponse :: "(int \<Rightarrow> int) \<Rightarrow> string \<Rightarrow> string" where
  "generateMockResponse lowerCase prompt =
     (let promptLower = ToLower lowerCase prompt in
      if Contains promptLower ''restart'' \<and> Contains promptLower ''pod'' then restartResponse
      else if Contains promptLower ''diagnose'' \<or> Contains promptLower ''crashloop'' then
        diagnoseResponse
      else if Contains promptLower ''scale'' then scaleResponse
      else ''Mock AI response for prompt: '' @ prompt)"

definition MockProvider_Generate ::
  "(int \<Rightarrow> int) \<Rightarrow> string \<Rightarrow> 'f Options \<Rightarrow> error + Response" where
  "MockProvider_Generate lowerCase prompt options =
     (let content = generateMockResponse lowerCase prompt in
      Inr \<lparr>Content = content, Model = ''mock-v1'',
           TokensUsed = int (length content) div 4, FinishReason = ''stop''\<rparr>)"

text \<open>The other back ends of the package are not implemented and fail on every call.\<close>

definition AnthropicProvider_Generate :: "string \<Rightarrow> 'f Options \<Rightarrow> error + Response" where
  "AnthropicProvider_Generate prompt options =
     Inl ''Anthropic provider not yet implemented - please use mock provider for now''"

definition OpenAIProvider_Generate :: "string \<Rightarrow> 'f Options \<Rightarrow> error + Response" where
  "OpenAIProvider_Generate prompt options =
     Inl ''OpenAI provider not yet implemented - please use mock provider for now''"

section \<open>Resource query interface (package k8s and the API types it returns)\<close>

text \<open>
  \<open>int32\<close> counters are 32-bit words, compared as signed numbers (\<open><s\<close>) and printed
  through \<open>sint\<close>.
\<close>

record ContainerInfo =
  Name :: string
  Image :: string
  Ready :: bool
  RestartCount :: "32 word"
  State :: string

record PodInfo =
  Name :: string
  Namespace :: string
  Phase :: string
  Restarts :: "32 word"
  Ready :: bool
  ContainerInfo :: "ContainerInfo list"

text \<open>
  The part of \<open>corev1.Pod\<close> that the diagnosis reads: \<open>Status.Phase\<close> and, for each entry
  of \<open>Status.ContainerStatuses\<close>, the name, the optional \<open>State.Waiting\<close> and the restart
  count.
\<close>

record ContainerStateWaiting =
  Reason :: string
  Message :: string

record ContainerStatus =
  Name :: string
  Waiting :: "ContainerStateWaiting option"
  RestartCount :: "32 word"

record Pod =
  Phase :: string
  ContainerStatuses :: "ContainerStatus list"

section \<open>Policy gate (package policy)\<close>

record Validator =
  enabled :: bool

datatype policy_Severity = policy_SeverityHigh | policy_SeverityMedium | policy_SeverityLow

record Violation =
  Policy :: string
  Severity :: policy_Severity
  Message :: string

record ValidationResult =
  Allowed :: bool
  Violations :: "Violation list"
  Warnings :: "string list"

text \<open>
  \<open>contains\<close> is the helper at the end of the package. Its body compares
  the bytes of \<open>s\<close> and \<open>substr\<close> as they are: \<open>s == substr\<close>, then the prefix
  \<open>s[:len(substr)] == substr\<close>, then the recursive call on \<open>s[1:]\<close>.
\<close>

function contains :: "string \<Rightarrow> string \<Rightarrow> bool" where
  "contains s substr =
     (if length substr \<le> length s then
        (if s = substr then True
         else if length substr < length s then
           (if take (length substr) s = substr then True
            else contains (drop 1 s) substr)
         else False)
      else False)"
  by pat_completeness auto
termination
  by (relation "measure (\<lambda>(s, substr). length s)") auto

declare contains.simps [simp del]

definition dangerousOps :: "string list" where
  "dangerousOps = [''delete'', ''drain'', ''cordon'']"

definition warn_op :: "string \<Rightarrow> ValidationResult \<Rightarrow> string \<Rightarrow> ValidationResult" where
  "warn_op command result op =
     (if contains command op
      then result\<lparr>ValidationResult.Warnings := ValidationResult.Warnings result @
             [''Potentially dangerous operation detected: '' @ op]\<rparr>
      else result)"

definition check_privileged :: "string \<Rightarrow> ValidationResult \<Rightarrow> ValidationResult" where
  "check_privileged command result =
     (if contains command ''privileged'' \<or> contains command ''hostNetwork''
      then result\<lparr>Violations := Violations result @
             [\<lparr>Policy = ''no-privileged-containers'', Violation.Severity = policy_SeverityHigh,
               Violation.Message = ''Privileged containers are not allowed''\<rparr>],
             Allowed := False\<rparr>
      else result)"

definition check_root :: "string \<Rightarrow> ValidationResult \<Rightarrow> ValidationResult" where
  "check_root command result =
     (if contains command ''runAsUser: 0''
      then result\<lparr>Violations := Violations result @
             [\<lparr>Policy = ''no-root-containers'', Violation.Severity = policy_SeverityHigh,
               Violation.Message = ''Running containers as root is not allowed''\<rparr>],
             Allowed := False\<rparr>
      else result)"

definition check_limits :: "string \<Rightarrow> ValidationResult \<Rightarrow> ValidationResult" where
  "check_limits command result =
     (if contains command ''limits'' = False \<and> contains command ''create''
      then result\<lparr>ValidationResult.Warnings := ValidationResult.Warnings result @
             [''No resource limits specified - consider adding limits'']\<rparr>
      else result)"

text \<open>
  \<open>ValidateCommand\<close> returns its result with a nil error on every path, so the model
  returns the result alone. The disabled branch leaves \<open>Warnings\<close> nil, an empty slice.
\<close>

definition ValidateCommand :: "Validator \<Rightarrow> string \<Rightarrow> ValidationResult" where
  "ValidateCommand v command =
     (if \<not> enabled v then \<lparr>Allowed = True, Violations = [], ValidationResult.Warnings = []\<rparr>
      else
        check_limits command
          (check_root command
            (check_privileged command
              (foldl (warn_op command)
                 \<lparr>Allowed = True, Violations = [], ValidationResult.Warnings = []\<rparr> dangerousOps))))"

section \<open>Diagnostics and scoring engine (package diagnose)\<close>

datatype Severity = SeverityCritical | SeverityHigh | SeverityMedium | SeverityLow

text \<open>The string that a \<open>Severity\<close> constant stands for, as \<open>%s\<close> prints it.\<close>

fun Severity_string :: "Severity \<Rightarrow> string" where
  "Severity_string SeverityCritical = ''critical''"
| "Severity_string SeverityHigh = ''high''"
| "Severity_string SeverityMedium = ''medium''"
| "Severity_string SeverityLow = ''low''"

type_synonym IssueType = string

definition IssueCrashLoopBackOff :: IssueType where
  "IssueCrashLoopBackOff = ''CrashLoopBackOff''"

definition IssueImagePullBackOff :: IssueType where
  "IssueImagePullBackOff = ''ImagePullBackOff''"

text \<open>
  \<open>Details\<close> is a map that the engine never fills; it is kept as a list of
  key-value pairs and stays empty.
\<close>

record Issue =
  Severity :: Severity
  Type :: IssueType
  Resource :: string
  Description :: string
  Details :: "(string \<times> string) list"

record Remediation =
  Title :: string
  Description :: string
  Command :: string
  Confidence :: string
  Safe :: bool

record Report =
  Summary :: string
  Issues :: "Issue list"
  Remediations :: "Remediation list"
  HealthScore :: int

text \<open>
  The engine holds a cluster client and an AI provider. The two client calls that the
  diagnosis makes are fields of the model: \<open>GetPod name namespace\<close> and
  \<open>GetPods namespace\<close>, each returning its data or an error.

  \<open>HealthScore\<close> and the problem counter are Go \<open>int\<close> (64 bits). They are modelled as
  \<open>int\<close>: each loop step moves them by at most 55, once per container or pod of a list
  held in memory, so they stay far inside the 64-bit range.
\<close>

record Engine =
  GetPod :: "string \<Rightarrow> string \<Rightarrow> error + Pod"
  GetPods :: "string \<Rightarrow> error + PodInfo list"
  aiProvider :: Provider
  namespace :: string
  allNamespaces :: bool

definition min_int :: "int \<Rightarrow> int \<Rightarrow> int" where
  "min_int a b = (if a < b then a else b)"

definition issue_line :: "Issue \<Rightarrow> string" where
  "issue_line issue =
     ''- ['' @ Severity_string (Issue.Severity issue) @ ''] '' @ Issue.Type issue @ '': '' @
     Issue.Description issue @ ''\<newline>''"

definition generateRemediations :: "Engine \<Rightarrow> Issue list \<Rightarrow> string \<Rightarrow> Remediation list" where
  "generateRemediations e issues resourceName =
     (let prompt = foldl (\<lambda>prompt issue. prompt @ issue_line issue)
                     (''Kubernetes diagnostics for resource: '' @ resourceName @
                      ''\<newline>\<newline>Detected issues:\<newline>'') issues;
          prompt = prompt @ ''\<newline>Provide 3 remediation steps with kubectl commands.''
      in case aiProvider e prompt of
           Inl err \<Rightarrow> []
         | Inr response \<Rightarrow>
             [\<lparr>Title = ''Check pod logs'',
               Description = ''Inspect pod logs for error messages'',
               Command = ''kubectl logs '' @ resourceName @ '' -n '' @ namespace e,
               Confidence = ''High'', Safe = True\<rparr>,
              \<lparr>Title = ''Describe pod'',
               Description = ''Get detailed pod information and events'',
               Command = ''kubectl describe pod '' @ resourceName @ '' -n '' @ namespace e,
               Confidence = ''High'', Safe = True\<rparr>,
              \<lparr>Title = take (nat (min_int (int (length (Content response))) 50))
                        (Content response) @ ''...'',
               Description = ''AI-suggested remediation'',
               Command = ''# See AI response for details'',
               Confidence = ''Medium'', Safe = True\<rparr>])"

definition check_phase :: "string \<Rightarrow> Pod \<Rightarrow> Report \<Rightarrow> Report" where
  "check_phase podName pod report =
     (if Pod.Phase pod \<noteq> ''Running''
      then report\<lparr>Issues := Issues report @
               [\<lparr>Issue.Severity = SeverityHigh, Type = Pod.Phase pod, Resource = podName,
                 Issue.Description = ''Pod is in '' @ Pod.Phase pod @ '' phase'',
                 Details = []\<rparr>],
             HealthScore := HealthScore report - 30\<rparr>
      else report)"

text \<open>The \<open>switch reason\<close>: issue type, severity and the points taken off.\<close>

definition classify_reason :: "string \<Rightarrow> IssueType \<times> Severity \<times> int" where
  "classify_reason reason =
     (if reason = ''CrashLoopBackOff'' then (IssueCrashLoopBackOff, SeverityCritical, 40)
      else if reason = ''ImagePullBackOff'' \<or> reason = ''ErrImagePull''
        then (IssueImagePullBackOff, SeverityHigh, 35)
      else (reason, SeverityMedium, 20))"

definition check_waiting :: "string \<Rightarrow> ContainerStatus \<Rightarrow> Report \<Rightarrow> Report" where
  "check_waiting podName cs report =
     (case Waiting cs of
        None \<Rightarrow> report
      | Some w \<Rightarrow>
          (case classify_reason (Reason w) of (issueType, severity, points) \<Rightarrow>
             report\<lparr>HealthScore := HealthScore report - points,
                    Issues := Issues report @
                      [\<lparr>Issue.Severity = severity, Type = issueType,
                        Resource = podName @ ''/'' @ ContainerStatus.Name cs,
                        Issue.Description = ''Container '' @ ContainerStatus.Name cs @ '': '' @
                          Reason w @ '' - '' @ ContainerStateWaiting.Message w,
                        Details = []\<rparr>]\<rparr>))"

definition check_restarts :: "string \<Rightarrow> ContainerStatus \<Rightarrow> Report \<Rightarrow> Report" where
  "check_restarts podName cs report =
     (if 5 <s ContainerStatus.RestartCount cs
      then report\<lparr>Issues := Issues report @
               [\<lparr>Issue.Severity = SeverityMedium, Type = IssueCrashLoopBackOff,
                 Resource = podName @ ''/'' @ ContainerStatus.Name cs,
                 Issue.Description = ''Container has restarted '' @
                   fmt_d (sint (ContainerStatus.RestartCount cs)) @ '' times'',
                 Details = []\<rparr>],
             HealthScore := HealthScore report - 15\<rparr>
      else report)"

definition check_container :: "string \<Rightarrow> Report \<Rightarrow> ContainerStatus \<Rightarrow> Report" where
  "check_container podName report cs =
     check_restarts podName cs (check_waiting podName cs report)"

definition diagnosePod :: "Engine \<Rightarrow> string \<Rightarrow> error + Report" where
  "diagnosePod e podName =
     (case GetPod e podName (namespace e) of
        Inl err \<Rightarrow> Inl (''failed to get pod: '' @ err)
      | Inr pod \<Rightarrow>
          (let report = \<lparr>Summary = ''Diagnostics for pod: '' @ podName, Issues = [],
                          Remediations = [], HealthScore = 100\<rparr>;
               report = check_phase podName pod report;
               report = foldl (check_container podName) report (ContainerStatuses pod)
           in if 0 < length (Issues report)
              then Inr (report\<lparr>Remediations :=
                          generateRemediations e (Issues report) podName\<rparr>)
              else Inr report))"

text \<open>
  The loop of \<open>diagnoseAllPods\<close> runs on the pair of the counter \<open>problemPods\<close> and the
  report; \<open>pod_issue\<close> is the issue it builds for one pod.
\<close>

definition pod_issue :: "PodInfo \<Rightarrow> Issue" where
  "pod_issue pod =
     (let issue = \<lparr>Issue.Severity = SeverityMedium, Type = [],
                    Resource = ''pod/'' @ PodInfo.Name pod,
                    Issue.Description = ''Pod '' @ PodInfo.Name pod @ '': Phase='' @
                      PodInfo.Phase pod @ '', Ready='' @ fmt_v (PodInfo.Ready pod) @
                      '', Restarts='' @ fmt_d (sint (Restarts pod)),
                    Details = []\<rparr>
      in if 10 <s Restarts pod then issue\<lparr>Issue.Severity := SeverityHigh\<rparr> else issue)"

definition scan_pod :: "int \<times> Report \<Rightarrow> PodInfo \<Rightarrow> int \<times> Report" where
  "scan_pod st pod =
     (case st of (problemPods, report) \<Rightarrow>
        if PodInfo.Phase pod \<noteq> ''Running'' \<or> \<not> PodInfo.Ready pod \<or> 3 <s Restarts pod
        then (problemPods + 1, report\<lparr>Issues := Issues report @ [pod_issue pod]\<rparr>)
        else (problemPods, report))"

definition diagnoseAllPods :: "Engine \<Rightarrow> error + Report" where
  "diagnoseAllPods e =
     (case GetPods e (namespace e) of
        Inl err \<Rightarrow> Inl (''failed to list pods: '' @ err)
      | Inr pods \<Rightarrow>
          (case foldl scan_pod
                  (0, \<lparr>Summary = ''Cluster diagnostics'', Issues = [], Remediations = [],
                       HealthScore = 100\<rparr>) pods of
             (problemPods, report) \<Rightarrow>
               (let report =
                      (if 0 < problemPods
                       then (let report = report\<lparr>HealthScore := 100 - problemPods * 10\<rparr>
                             in if HealthScore report < 0 then report\<lparr>HealthScore := 0\<rparr>
                                else report)
                       else report)
                in Inr (report\<lparr>Summary :=
                     ''Found '' @ fmt_d (int (length (Issues report))) @ '' issue(s) across '' @
                     fmt_d (int (length pods)) @ '' pods. Health score: '' @
                     fmt_d (HealthScore report) @ ''/100''\<rparr>))))"

text \<open>
  The problem-pod test in the words of the specification: the phase is not Running, or
  the pod is not ready, or its restarts exceed 3.
\<close>

definition spec_problem_pod :: "PodInfo \<Rightarrow> bool" where
  "spec_problem_pod pod =
     (PodInfo.Phase pod \<noteq> ''Running'' \<or> \<not> PodInfo.Ready pod \<or> 3 < sint (Restarts pod))"

section \<open>Plan generation pipeline (package plan)\<close>

record Planner =
  aiProvider :: Provider
  namespace :: string
  dryRun :: bool

record Command =
  Command :: string
  Description :: string
  Safe :: bool
  DryRun :: bool

record Plan =
  Summary :: string
  Commands :: "Command list"
  Warnings :: "string list"
  RequiresAuth :: bool
  DryRun :: bool

record Result =
  ExecutedCommands :: "string list"
  Errors :: "string list"

definition systemPrompt :: string where
  "systemPrompt =
     ''You are a Kubernetes expert assistant. Your task is to translate natural language queries into safe kubectl commands.\<newline>'' @
     ''\<newline>'' @
     ''Rules:\<newline>'' @
     ''1. Always prefer dry-run commands when possible\<newline>'' @
     ''2. Never suggest commands that delete critical resources without warning\<newline>'' @
     ''3. Include explanations for each command\<newline>'' @
     ''4. Warn about potentially dangerous operations\<newline>'' @
     ''5. Use the namespace provided in context when applicable\<newline>'' @
     ''6. Suggest RBAC-safe alternatives when possible\<newline>'' @
     ''\<newline>'' @
     ''Format your response as:\<newline>'' @
     ''SUMMARY: <brief summary>\<newline>'' @
     ''COMMANDS:\<newline>'' @
     ''- <kubectl command> | <description> | <safe: true/false>\<newline>'' @
     ''\<newline>'' @
     ''WARNINGS:\<newline>'' @
     ''- <warning if any>\<newline>''"

definition buildPrompt :: "Planner \<Rightarrow> string \<Rightarrow> string" where
  "buildPrompt p query =
     (let namespace = (if Planner.namespace p = [] then ''default'' else Planner.namespace p);
          userPrompt = ''Namespace: '' @ namespace @ ''\<newline>'' @
                       ''Query: '' @ query @ ''\<newline>'' @
                       ''\<newline>'' @
                       ''Generate a safe execution plan for this query.''
      in systemPrompt @ ''\<newline>\<newline>'' @ userPrompt)"

text \<open>
  The scanner of \<open>parseResponse\<close> keeps the two flags and the plan under construction.
  One step reads one line: it trims the line, handles the three markers (each ends the
  step, as \<open>continue\<close> does), then the command test and the warning test in turn.
\<close>

record scan_state =
  inCommands :: bool
  inWarnings :: bool
  plan :: Plan

text \<open>
  The command test is \<open>inCommands && HasPrefix(line, "-") || HasPrefix(line, "kubectl")\<close>;
  in Go \<open>&&\<close> binds tighter than \<open>||\<close>.
\<close>

definition parse_command :: "Planner \<Rightarrow> string \<Rightarrow> scan_state \<Rightarrow> scan_state" where
  "parse_command p line st =
     (if (inCommands st \<and> HasPrefix line ''-'') \<or> HasPrefix line ''kubectl'' then
        (let parts = Split line (CHR ''|'') in
         if 2 \<le> length parts then
           (let cmd = TrimSpace (TrimPrefix (parts ! 0) ''-'');
                desc = TrimSpace (parts ! 1);
                safe = (if 3 \<le> length parts \<and> Contains (parts ! 2) ''false''
                        then False else True)
            in st\<lparr>plan := (plan st)\<lparr>Commands := Commands (plan st) @
                     [\<lparr>Command = cmd, Command.Description = desc, Command.Safe = safe,
                       Command.DryRun = dryRun p\<rparr>]\<rparr>\<rparr>)
         else st)
      else st)"

definition parse_warning :: "string \<Rightarrow> scan_state \<Rightarrow> scan_state" where
  "parse_warning line st =
     (if inWarnings st \<and> HasPrefix line ''-'' then
        (let warning = TrimSpace (TrimPrefix line ''-'') in
         if warning \<noteq> [] then
           st\<lparr>plan := (plan st)\<lparr>Plan.Warnings := Plan.Warnings (plan st) @ [warning]\<rparr>\<rparr>
         else st)
      else st)"

definition scan_line :: "Planner \<Rightarrow> scan_state \<Rightarrow> string \<Rightarrow> scan_state" where
  "scan_line p st raw =
     (let line = TrimSpace raw in
      if HasPrefix line ''SUMMARY:'' then
        st\<lparr>plan := (plan st)\<lparr>Plan.Summary := TrimSpace (TrimPrefix line ''SUMMARY:'')\<rparr>\<rparr>
      else if HasPrefix line ''COMMANDS:'' then
        st\<lparr>inCommands := True, inWarnings := False\<rparr>
      else if HasPrefix line ''WARNINGS:'' then
        st\<lparr>inWarnings := True, inCommands := False\<rparr>
      else parse_warning line (parse_command p line st))"

text \<open>The state after the loop over the lines of the response.\<close>

definition scan_response :: "Planner \<Rightarrow> string \<Rightarrow> string \<Rightarrow> scan_state" where
  "scan_response p response originalQuery =
     foldl (scan_line p)
       \<lparr>inCommands = False, inWarnings = False,
        plan = \<lparr>Plan.Summary = ''Execution plan for: '' @ originalQuery, Commands = [],
                Plan.Warnings = [], RequiresAuth = False, Plan.DryRun = dryRun p\<rparr>\<rparr>
       (Split response (CHR 0x0A))"

definition parseResponse :: "Planner \<Rightarrow> string \<Rightarrow> string \<Rightarrow> Plan" where
  "parseResponse p response originalQuery =
     (let plan = plan (scan_response p response originalQuery) in
      if length (Commands plan) = 0 then
        plan\<lparr>Commands := Commands plan @
               [\<lparr>Command = ''# Generated from: '' @ originalQuery,
                 Command.Description = ''See AI response for details'',
                 Command.Safe = True, Command.DryRun = dryRun p\<rparr>]\<rparr>
      else plan)"

definition Generate :: "Planner \<Rightarrow> string \<Rightarrow> error + Plan" where
  "Generate p query =
     (let prompt = buildPrompt p query in
      case Planner.aiProvider p prompt of
        Inl err \<Rightarrow> Inl (''failed to generate plan: '' @ err)
      | Inr response \<Rightarrow>
          (let plan = parseResponse p (Content response) query
           in Inr (plan\<lparr>Plan.DryRun := dryRun p\<rparr>)))"

text \<open>
  \<open>Execute\<close> records each command in \<open>ExecutedCommands\<close>: with the mark \<open>[DRY-RUN]\<close>
  when the test \<open>p.DryRun && !cmd.DryRun\<close> holds, as it is otherwise (the place where
  the command is to be run). Its error is nil on every path.
\<close>

definition execute_command :: "Plan \<Rightarrow> Result \<Rightarrow> Command \<Rightarrow> Result" where
  "execute_command p result cmd =
     (if Plan.DryRun p \<and> \<not> Command.DryRun cmd
      then result\<lparr>ExecutedCommands := ExecutedCommands result @
                    [''[DRY-RUN] '' @ Command cmd]\<rparr>
      else result\<lparr>ExecutedCommands := ExecutedCommands result @ [Command cmd]\<rparr>)"

definition Execute :: "Plan \<Rightarrow> Result" where
  "Execute p =
     foldl (execute_command p) \<lparr>ExecutedCommands = [], Errors = []\<rparr> (Commands p)"

text \<open>
  Predicates on a raw line of the response, used to state what the scanner parses: the
  line is a marker line, or it is a command line in the dash form or in the
  \<open>kubectl\<close> form (the trimmed line has the prefix and holds the separator).
\<close>

definition COMMANDS_marker :: "string \<Rightarrow> bool" where
  "COMMANDS_marker raw = HasPrefix (TrimSpace raw) ''COMMANDS:''"

definition WARNINGS_marker :: "string \<Rightarrow> bool" where
  "WARNINGS_marker raw = HasPrefix (TrimSpace raw) ''WARNINGS:''"

definition dash_command_line :: "string \<Rightarrow> bool" where
  "dash_command_line raw =
     (HasPrefix (TrimSpace raw) ''-'' \<and> CHR ''|'' \<in> set (TrimSpace raw))"

definition kubectl_command_line :: "string \<Rightarrow> bool" where
  "kubectl_command_line raw =
     (HasPrefix (TrimSpace raw) ''kubectl'' \<and> CHR ''|'' \<in> set (TrimSpace raw))"

section \<open>Extension registry (package plugins)\<close>

record RemediationStep =
  Description :: string
  Command :: string
  Action :: string
  Safe :: bool
  Confidence :: string

text \<open>
  The two maps of a plugin issue hold values of any type; they are kept as lists of
  key-value pairs of strings. The registry never reads an issue.
\<close>

record plugins_Issue =
  ID :: string
  Severity :: string
  Title :: string
  Description :: string
  Resource :: string
  Namespace :: string
  Type :: string
  Details :: "(string \<times> string) list"
  Metadata :: "(string \<times> string) list"
  Remediation :: "RemediationStep list"

text \<open>
  A plugin is a value of the interface: three strings and \<open>Analyze\<close>, from the resource
  to a list of issues or an error.
\<close>

record 'r Plugin =
  Name :: string
  Version :: string
  Description :: string
  Analyze :: "'r \<Rightarrow> error + plugins_Issue list"

record 'r Manager =
  plugins :: "string \<rightharpoonup> 'r Plugin"

text \<open>
  The loop of \<open>RunAnalysis\<close>, on the plugins in the order in which the \<open>range\<close> over the
  map visits them. The state is the pair of \<open>allIssues\<close> and the lines printed so far:
  a failing plugin adds a line and nothing else.
\<close>

fun RunAnalysis_loop ::
  "'r Plugin list \<Rightarrow> 'r \<Rightarrow> plugins_Issue list \<times> string list \<Rightarrow> plugins_Issue list \<times> string list"
where
  "RunAnalysis_loop [] resource st = st"
| "RunAnalysis_loop (plugin # rest) resource (allIssues, out) =
     (case Analyze plugin resource of
        Inl err \<Rightarrow>
          RunAnalysis_loop rest resource
            (allIssues, out @ [''Plugin '' @ Plugin.Name plugin @ '' analysis failed: '' @ err @
                                ''\<newline>''])
      | Inr issues \<Rightarrow> RunAnalysis_loop rest resource (allIssues @ issues, out))"

text \<open>
  Go leaves the order of a \<open>range\<close> over a map open. \<open>RunAnalysis\<close> takes the order of
  this run as the list \<open>keys\<close> of the names visited, which for a run of the program
  holds each registered name once. The result is the pair of the returned value (the
  issues or an error) and the lines printed.
\<close>

definition RunAnalysis ::
  "'r Manager \<Rightarrow> string list \<Rightarrow> 'r \<Rightarrow> (error + plugins_Issue list) \<times> string list" where
  "RunAnalysis m keys resource =
     (case RunAnalysis_loop (List.map_filter (plugins m) keys) resource ([], []) of
        (allIssues, out) \<Rightarrow> (Inr allIssues, out))"

text \<open>The issues that one plugin contributes: those of a successful \<open>Analyze\<close>.\<close>

definition contributed :: "'r \<Rightarrow> 'r Plugin \<Rightarrow> plugins_Issue list" where
  "contributed resource plugin =
     (case Analyze plugin resource of Inl err \<Rightarrow> [] | Inr issues \<Rightarrow> issues)"

section \<open>Example inputs\<close>

text \<open>
  \<open>NewEngine\<close> builds its engine with the mock provider, which the engine calls with
  \<open>DefaultOptions()\<close>; the temperature, a \<open>float64\<close>, is left out of the options here.
  The provider and the engine below take the case table of \<open>ToLower\<close> as their argument.
\<close>

definition DefaultOptions :: "unit Options" where
  "DefaultOptions =
     \<lparr>Temperature = (), MaxTokens = 2000, Options.Model = [], SystemPrompt = [],
      StopSequences = []\<rparr>"

definition mock_provider :: "(int \<Rightarrow> int) \<Rightarrow> Provider" where
  "mock_provider lowerCase prompt = MockProvider_Generate lowerCase prompt DefaultOptions"

text \<open>
  A running pod with two containers that wait in CrashLoopBackOff after 7 restarts each,
  and an engine whose cluster holds this pod.
\<close>

definition crashing_container :: "string \<Rightarrow> ContainerStatus" where
  "crashing_container name =
     \<lparr>ContainerStatus.Name = name,
      Waiting = Some \<lparr>Reason = ''CrashLoopBackOff'',
                       ContainerStateWaiting.Message = ''back-off restarting failed container''\<rparr>,
      ContainerStatus.RestartCount = 7\<rparr>"

definition crashing_pod :: Pod where
  "crashing_pod =
     \<lparr>Pod.Phase = ''Running'',
      ContainerStatuses = [crashing_container ''app'', crashing_container ''sidecar'']\<rparr>"

definition pod_info :: "string \<Rightarrow> string \<Rightarrow> bool \<Rightarrow> 32 word \<Rightarrow> PodInfo" where
  "pod_info name phase ready restarts =
     \<lparr>PodInfo.Name = name, PodInfo.Namespace = ''default'', PodInfo.Phase = phase,
      Restarts = restarts, PodInfo.Ready = ready, ContainerInfo = []\<rparr>"

text \<open>Ten pods; the last three are a pending pod, a pod not ready and a pod with 4 restarts.\<close>

definition ten_pods :: "PodInfo list" where
  "ten_pods =
     [pod_info ''a'' ''Running'' True 0, pod_info ''b'' ''Running'' True 1,
      pod_info ''c'' ''Running'' True 3, pod_info ''d'' ''Running'' True 0,
      pod_info ''e'' ''Running'' True 2, pod_info ''f'' ''Running'' True 0,
      pod_info ''g'' ''Running'' True 0, pod_info ''h'' ''Pending'' True 0,
      pod_info ''i'' ''Running'' False 0, pod_info ''j'' ''Running'' True 4]"

definition example_engine :: "(int \<Rightarrow> int) \<Rightarrow> Engine" where
  "example_engine lowerCase =
     \<lparr>GetPod = (\<lambda>name namespace. Inr crashing_pod),
      GetPods = (\<lambda>namespace. Inr ten_pods),
      Engine.aiProvider = mock_provider lowerCase, Engine.namespace = ''default'',
      allNamespaces = False\<rparr>"

text \<open>
  A planner in dry-run mode whose provider answers every prompt in the line protocol:
  a summary, one command line and one warning.
\<close>

definition delete_response :: string where
  "delete_response =
     ''SUMMARY: Delete the pod\<newline>'' @
     ''COMMANDS:\<newline>'' @
     ''- kubectl delete pod web | Delete the pod | false\<newline>'' @
     ''WARNINGS:\<newline>'' @
     ''- The pod is removed''"

definition dry_run_planner :: Planner where
  "dry_run_planner =
     \<lparr>Planner.aiProvider =
        (\<lambda>prompt. Inr \<lparr>Content = delete_response, Response.Model = ''scripted'',
                           TokensUsed = 0, FinishReason = ''stop''\<rparr>),
      Planner.namespace = ''default'', dryRun = True\<rparr>"

text \<open>
  The UTF-8 bytes of two white space characters outside ASCII, the no-break space U+00A0
  and the em space U+2003.
\<close>

definition nbsp :: string where
  "nbsp = [CHR 0xC2, CHR 0xA0]"

definition emsp :: string where
  "emsp = [CHR 0xE2, CHR 0x80, CHR 0x83]"

text \<open>
  Two more responses: one with a \<open>kubectl\<close> line in front of the COMMANDS block and a
  line without separator inside it, and one with the block between other lines, some of
  them indented or followed by the white space above.
\<close>

definition stray_response :: string where
  "stray_response =
     ''kubectl get pods | list the pods\<newline>'' @
     ''COMMANDS:\<newline>'' @
     ''- kubectl get nodes | list the nodes | true\<newline>'' @
     ''- no separator here''"

definition mixed_response :: string where
  "mixed_response =
     ''SUMMARY: Inspect the cluster\<newline>'' @
     nbsp @ ''kubectl get pods | list the pods\<newline>'' @
     ''COMMANDS:'' @ emsp @ ''\<newline>'' @
     emsp @ ''- kubectl get nodes | list the nodes | true\<newline>'' @
     ''- no separator here\<newline>'' @
     nbsp @ ''WARNINGS:\<newline>'' @
     ''- read only''"

text \<open>A response whose WARNINGS line, behind a no-break space, ends the COMMANDS block.\<close>

definition indented_response :: string where
  "indented_response =
     ''COMMANDS:\<newline>'' @
     nbsp @ ''WARNINGS:\<newline>'' @
     ''- a | b''"

text \<open>
  A registry of three plugins: the first and the third report issues, the second fails.
\<close>

definition example_issue :: "string \<Rightarrow> plugins_Issue" where
  "example_issue name =
     \<lparr>ID = name, plugins_Issue.Severity = ''low'', plugins_Issue.Title = [],
      plugins_Issue.Description = ''This is an example issue detected by the plugin'',
      plugins_Issue.Resource = ''example-resource'', plugins_Issue.Namespace = [],
      plugins_Issue.Type = [], plugins_Issue.Details = [],
      Metadata = [(''type'', ''example'')], Remediation = []\<rparr>"

definition example_plugin :: "string \<Rightarrow> (error + plugins_Issue list) \<Rightarrow> unit Plugin" where
  "example_plugin name outcome =
     \<lparr>Plugin.Name = name, Version = ''1.0.0'', Plugin.Description = ''example'',
      Analyze = (\<lambda>resource. outcome)\<rparr>"

definition example_manager :: "unit Manager" where
  "example_manager =
     \<lparr>plugins = [''first'' \<mapsto> example_plugin ''first'' (Inr [example_issue ''f1'']),
                 ''second'' \<mapsto> example_plugin ''second'' (Inl ''boom''),
                 ''third'' \<mapsto> example_plugin ''third''
                    (Inr [example_issue ''t1'', example_issue ''t2''])]\<rparr>"

section \<open>Properties of the policy gate\<close>

lemma sublist_same_length:
  assumes "\<not> length substr < length s"
  shows "sublist substr s = (s = substr)"
proof
  assume "sublist substr s"
  then obtain ps ss where eq: "s = ps @ substr @ ss"
    unfolding sublist_def by blast
  then have "length s = length ps + length substr + length ss" by simp
  with assms have "ps = []" "ss = []" by simp_all
  with eq show "s = substr" by simp
next
  assume "s = substr"
  then show "sublist substr s" by simp
qed

lemma contains_sublist: "contains s substr = sublist substr s"
proof (induction s substr rule: contains.induct)
  case (1 s substr)
  show ?case
  proof (cases "length substr < length s")
    case False
    then have "sublist substr s = (s = substr)"
      by (rule sublist_same_length)
    with False show ?thesis
      by (subst contains.simps) simp
  next
    case True
    then obtain c cs where s: "s = c # cs" by (cases s) simp_all
    have ne: "s \<noteq> substr" using True by blast
    show ?thesis
    proof (cases "take (length substr) s = substr")
      case tk: True
      have "prefix (take (length substr) s) s" by (rule take_is_prefix)
      with tk have "prefix substr s" by simp
      then have "sublist substr s" by (rule prefix_imp_sublist)
      with True tk show ?thesis by (subst contains.simps) simp
    next
      case tk: False
      have np: "\<not> prefix substr s"
      proof
        assume "prefix substr s"
        then obtain zs where "s = substr @ zs" by (auto simp: prefix_def)
        then have "take (length substr) s = substr" by simp
        with tk show False by simp
      qed
      have "contains s substr = contains (drop 1 s) substr"
        using True tk ne by (subst contains.simps) simp
      also have "\<dots> = sublist substr (drop 1 s)"
        using "1.IH" True ne tk by simp
      also have "\<dots> = sublist substr s"
        using np s by (simp add: sublist_Cons_right)
      finally show ?thesis .
    qed
  qed
qed


lemma foldl_warn_op_Allowed:
  "Allowed (foldl (warn_op command) r ops) = Allowed r"
  by (induction ops arbitrary: r) (simp_all add: warn_op_def)

lemma foldl_warn_op_Violations:
  "Violations (foldl (warn_op command) r ops) = Violations r"
  by (induction ops arbitrary: r) (simp_all add: warn_op_def)

lemma foldl_warn_op_Warnings_mono:
  "length (ValidationResult.Warnings r) \<le> length (ValidationResult.Warnings (foldl (warn_op command) r ops))"
proof (induction ops arbitrary: r)
  case Nil
  show ?case by simp
next
  case (Cons op ops)
  have "length (ValidationResult.Warnings r) \<le> length (ValidationResult.Warnings (warn_op command r op))"
    by (simp add: warn_op_def)
  also have "\<dots> \<le> length (ValidationResult.Warnings (foldl (warn_op command) (warn_op command r op) ops))"
    by (rule Cons.IH)
  finally show ?case by simp
qed

text \<open>
  C5. For every ValidationResult that ValidateCommand returns, with enforcement enabled or
  disabled, the allowed flag is false if and only if the violations sequence is non-empty.
\<close>

theorem ValidateCommand_allowed_iff_no_violations:
  "(\<not> Allowed (ValidateCommand v command)) = (Violations (ValidateCommand v command) \<noteq> [])"
  by (simp add: ValidateCommand_def check_limits_def check_root_def check_privileged_def
      foldl_warn_op_Allowed foldl_warn_op_Violations)

text \<open>
  C6. With enforcement enabled, a command string that contains "privileged" is denied
  (allowed = false) with at least one High-severity violation, and a command string that
  contains "delete" and none of the violation markers "privileged", "hostNetwork",
  "runAsUser: 0" is allowed with at least one warning.
\<close>

theorem ValidateCommand_privileged_denied_delete_warned:
  assumes "enabled v"
  shows "(sublist ''privileged'' command \<longrightarrow>
            \<not> Allowed (ValidateCommand v command) \<and>
            (\<exists>x \<in> set (Violations (ValidateCommand v command)).
               Violation.Severity x = policy_SeverityHigh)) \<and>
         (sublist ''delete'' command \<and> \<not> sublist ''privileged'' command \<and>
          \<not> sublist ''hostNetwork'' command \<and> \<not> sublist ''runAsUser: 0'' command \<longrightarrow>
            Allowed (ValidateCommand v command) \<and>
            ValidationResult.Warnings (ValidateCommand v command) \<noteq> [])"
proof (intro conjI impI)
  assume "sublist ''privileged'' command"
  then have p: "contains command ''privileged''" by (simp add: contains_sublist)
  from assms p show "\<not> Allowed (ValidateCommand v command)"
    by (simp add: ValidateCommand_def check_limits_def check_root_def check_privileged_def)
  from assms p show "\<exists>x \<in> set (Violations (ValidateCommand v command)).
      Violation.Severity x = policy_SeverityHigh"
    by (simp add: ValidateCommand_def check_limits_def check_root_def check_privileged_def)
next
  assume h: "sublist ''delete'' command \<and> \<not> sublist ''privileged'' command \<and>
    \<not> sublist ''hostNetwork'' command \<and> \<not> sublist ''runAsUser: 0'' command"
  then have d: "contains command ''delete''"
    and n: "\<not> contains command ''privileged''" "\<not> contains command ''hostNetwork''"
      "\<not> contains command ''runAsUser: 0''"
    by (simp_all add: contains_sublist)
  from assms n show "Allowed (ValidateCommand v command)"
    by (simp add: ValidateCommand_def check_limits_def check_root_def check_privileged_def
        foldl_warn_op_Allowed)
  let ?r0 = "\<lparr>Allowed = True, Violations = [], ValidationResult.Warnings = []\<rparr>"
  let ?r1 = "warn_op command ?r0 ''delete''"
  have "0 < length (ValidationResult.Warnings ?r1)" using d by (simp add: warn_op_def)
  also have "\<dots> \<le> length (ValidationResult.Warnings (foldl (warn_op command) ?r1 [''drain'', ''cordon'']))"
    by (rule foldl_warn_op_Warnings_mono)
  finally have "ValidationResult.Warnings (foldl (warn_op command) ?r0 dangerousOps) \<noteq> []"
    by (simp add: dangerousOps_def)
  with assms n show "ValidationResult.Warnings (ValidateCommand v command) \<noteq> []"
    by (simp add: ValidateCommand_def check_limits_def check_root_def check_privileged_def)
qed

theorem ValidateCommand_privileged_denied_delete_warned_witness:
  "\<not> Allowed (ValidateCommand \<lparr>enabled = True\<rparr> ''kubectl run x --privileged'') \<and>
   (\<exists>x \<in> set (Violations (ValidateCommand \<lparr>enabled = True\<rparr> ''kubectl run x --privileged'')).
      Violation.Severity x = policy_SeverityHigh) \<and>
   Allowed (ValidateCommand \<lparr>enabled = True\<rparr> ''kubectl delete pod x'') \<and>
   ValidationResult.Warnings (ValidateCommand \<lparr>enabled = True\<rparr> ''kubectl delete pod x'') \<noteq> []"
proof -
  have en: "enabled \<lparr>enabled = True\<rparr>" by simp
  have h1: "sublist ''privileged'' ''kubectl run x --privileged''" by code_simp
  have h2: "sublist ''delete'' ''kubectl delete pod x'' \<and>
      \<not> sublist ''privileged'' ''kubectl delete pod x'' \<and>
      \<not> sublist ''hostNetwork'' ''kubectl delete pod x'' \<and>
      \<not> sublist ''runAsUser: 0'' ''kubectl delete pod x''" by code_simp
  from ValidateCommand_privileged_denied_delete_warned [OF en, of "''kubectl run x --privileged''"] h1
    ValidateCommand_privileged_denied_delete_warned [OF en, of "''kubectl delete pod x''"] h2
  show ?thesis by blast
qed

text \<open>
  C2. The claim: validating a command and validating a casing variant of it give the same
  allowed flag, violations and warnings. The helper \<open>contains\<close> is documented as
  case-insensitive but compares bytes exactly, so the upper-case spelling of a marker is
  not found: the command below is allowed, its lower-cased form is denied.
\<close>

theorem ValidateCommand_case_sensitive:
  "Allowed (ValidateCommand \<lparr>enabled = True\<rparr> ''kubectl run x --PRIVILEGED'') \<and>
   Violations (ValidateCommand \<lparr>enabled = True\<rparr> ''kubectl run x --PRIVILEGED'') = [] \<and>
   (\<forall>lowerCase.
      ToLower lowerCase ''kubectl run x --PRIVILEGED'' = ''kubectl run x --privileged'') \<and>
   \<not> Allowed (ValidateCommand \<lparr>enabled = True\<rparr> ''kubectl run x --privileged'') \<and>
   Violations (ValidateCommand \<lparr>enabled = True\<rparr> ''kubectl run x --privileged'') =
     [\<lparr>Policy = ''no-privileged-containers'', Violation.Severity = policy_SeverityHigh,
       Violation.Message = ''Privileged containers are not allowed''\<rparr>]"
proof -
  have "ToLower lowerCase ''kubectl run x --PRIVILEGED'' = ''kubectl run x --privileged''"
    for lowerCase
    by code_simp
  moreover have "Allowed (ValidateCommand \<lparr>enabled = True\<rparr> ''kubectl run x --PRIVILEGED'') \<and>
      Violations (ValidateCommand \<lparr>enabled = True\<rparr> ''kubectl run x --PRIVILEGED'') = []"
    by code_simp
  moreover have "\<not> Allowed (ValidateCommand \<lparr>enabled = True\<rparr> ''kubectl run x --privileged'') \<and>
      Violations (ValidateCommand \<lparr>enabled = True\<rparr> ''kubectl run x --privileged'') =
        [\<lparr>Policy = ''no-privileged-containers'', Violation.Severity = policy_SeverityHigh,
          Violation.Message = ''Privileged containers are not allowed''\<rparr>]"
    by code_simp
  ultimately show ?thesis by blast
qed

section \<open>Properties of the mock provider\<close>

text \<open>
  The decoder: an ASCII byte is a rune of width 1; a rune is 1 to 4 bytes wide, and every
  byte of it after the first is outside ASCII, so a rune never runs over an ASCII byte.
\<close>

lemma DecodeRuneInString_ascii:
  assumes "(of_char a :: nat) < 0x80"
  shows "DecodeRuneInString (a # rest) = (int (of_char a), 1)"
  using assms by (simp add: DecodeRuneInString_def)

lemma DecodeRuneInString_width:
  assumes "DecodeRuneInString s = (c, w)"
  shows "s \<noteq> [] \<Longrightarrow> 1 \<le> w" and "w \<le> 4"
  using assms
  by (auto simp: DecodeRuneInString_def Let_def split: list.splits if_splits)

lemma DecodeRuneInString_continuation:
  assumes "DecodeRuneInString s = (c, w)"
  shows "2 \<le> w \<Longrightarrow> 0x80 \<le> (of_char (s ! 1) :: nat)"
    and "3 \<le> w \<Longrightarrow> 0x80 \<le> (of_char (s ! 2) :: nat)"
    and "4 \<le> w \<Longrightarrow> 0x80 \<le> (of_char (s ! 3) :: nat)"
  using assms
  by (auto simp: DecodeRuneInString_def Let_def split: list.splits if_splits)

lemma DecodeRuneInString_before_ascii:
  assumes "p \<noteq> []" and "(of_char a :: nat) < 0x80"
    and "DecodeRuneInString (p @ a # rest) = (c, w)"
  shows "w \<le> length p"
proof (rule ccontr)
  assume "\<not> w \<le> length p"
  then have lp: "length p < w" by simp
  have w4: "w \<le> 4" using assms(3) by (rule DecodeRuneInString_width(2))
  have a: "(p @ a # rest) ! length p = a" by simp
  from assms(1) have "1 \<le> length p" by (cases p) simp_all
  with lp w4 consider "length p = 1" | "length p = 2" | "length p = 3" by linarith
  then show False
  proof cases
    case 1
    with lp have "2 \<le> w" by simp
    then have "0x80 \<le> (of_char ((p @ a # rest) ! 1) :: nat)"
      using assms(3) by (rule DecodeRuneInString_continuation(1) [rotated])
    with a 1 assms(2) show False by simp
  next
    case 2
    with lp have "3 \<le> w" by simp
    then have "0x80 \<le> (of_char ((p @ a # rest) ! 2) :: nat)"
      using assms(3) by (rule DecodeRuneInString_continuation(2) [rotated])
    with a 2 assms(2) show False by simp
  next
    case 3
    with lp have "4 \<le> w" by simp
    then have "0x80 \<le> (of_char ((p @ a # rest) ! 3) :: nat)"
      using assms(3) by (rule DecodeRuneInString_continuation(3) [rotated])
    with a 3 assms(2) show False by simp
  qed
qed


text \<open>
  A needle made of ASCII bytes other than the letters \<open>A\<close> to \<open>Z\<close> is left as it is by
  \<open>ToLower\<close>, wherever it stands in the string and whatever the case table.
\<close>

lemma lower_byte_fixed:
  assumes "(of_char a :: nat) < 0x80" and "\<not> (65 \<le> (of_char a :: nat) \<and> (of_char a :: nat) \<le> 90)"
  shows "lower_byte a = a"
  using assms by (auto simp: lower_byte_def Let_def)

lemma Map_ascii_Cons:
  assumes "(of_char a :: nat) < 0x80" and "\<not> (65 \<le> (of_char a :: nat) \<and> (of_char a :: nat) \<le> 90)"
  shows "Map (unicode_ToLower lowerCase) (a # rest) = a # Map (unicode_ToLower lowerCase) rest"
proof -
  have r: "unicode_ToLower lowerCase (int (of_char a)) = int (of_char a)"
    using assms by (auto simp: unicode_ToLower_def)
  have e: "EncodeRune (int (of_char a)) = [a]"
    using assms(1) by (simp add: EncodeRune_def)
  show ?thesis
    using assms(1) r e
    by (subst Map.simps) (simp add: DecodeRuneInString_ascii)
qed

lemma Map_fixed_prefix:
  assumes "\<forall>a \<in> set needle. (of_char a :: nat) < 0x80 \<and>
      \<not> (65 \<le> (of_char a :: nat) \<and> (of_char a :: nat) \<le> 90)"
  shows "Map (unicode_ToLower lowerCase) (needle @ rest) =
     needle @ Map (unicode_ToLower lowerCase) rest"
  using assms by (induction needle) (simp_all add: Map_ascii_Cons)

lemma sublist_append_left:
  assumes "sublist xs ys"
  shows "sublist xs (zs @ ys)"
proof -
  from assms obtain ps ss where "ys = ps @ xs @ ss" by (auto simp: sublist_def)
  then have "zs @ ys = (zs @ ps) @ xs @ ss" by simp
  then show ?thesis unfolding sublist_def by blast
qed

lemma sublist_Map:
  assumes "needle \<noteq> []"
    and "\<forall>a \<in> set needle. (of_char a :: nat) < 0x80 \<and>
      \<not> (65 \<le> (of_char a :: nat) \<and> (of_char a :: nat) \<le> 90)"
  shows "sublist needle (Map (unicode_ToLower lowerCase) (p @ needle @ q))"
proof (induction p rule: length_induct)
  case (1 p)
  show ?case
  proof (cases "p = []")
    case True
    then show ?thesis using assms(2) by (simp add: Map_fixed_prefix)
  next
    case False
    from assms(1) obtain a rest where needle: "needle = a # rest" by (cases needle) auto
    with assms(2) have a: "(of_char a :: nat) < 0x80" by simp
    obtain c w where dec: "DecodeRuneInString (p @ needle @ q) = (c, w)"
      by (cases "DecodeRuneInString (p @ needle @ q)")
    from False have ne: "p @ needle @ q \<noteq> []" by simp
    have w1: "1 \<le> w" using dec ne by (rule DecodeRuneInString_width(1))
    have wp: "w \<le> length p"
      using False a dec unfolding needle by (simp add: DecodeRuneInString_before_ascii)
    from w1 False have shorter: "length (drop w p) < length p" by (cases p) auto
    from wp have dr: "drop w (p @ needle @ q) = drop w p @ needle @ q" by simp
    have "sublist needle (Map (unicode_ToLower lowerCase) (drop w p @ needle @ q))"
      using "1.IH" shorter by blast
    then have "sublist needle
        ((let r = unicode_ToLower lowerCase c in (if 0 \<le> r then EncodeRune r else [])) @
         Map (unicode_ToLower lowerCase) (drop w p @ needle @ q))"
      by (rule sublist_append_left)
    moreover have "Map (unicode_ToLower lowerCase) (p @ needle @ q) =
        (let r = unicode_ToLower lowerCase c in (if 0 \<le> r then EncodeRune r else [])) @
        Map (unicode_ToLower lowerCase) (drop w (p @ needle @ q))"
      by (subst Map.simps) (simp only: ne if_False dec prod.case)
    ultimately show ?thesis by (simp only: dr)
  qed
qed

lemma sublist_ToLower:
  assumes "sublist needle s" and "needle \<noteq> []"
    and "\<forall>a \<in> set needle. (of_char a :: nat) < 0x80 \<and>
      \<not> (65 \<le> (of_char a :: nat) \<and> (of_char a :: nat) \<le> 90)"
  shows "sublist needle (ToLower lowerCase s)"
proof -
  from assms(1) obtain p q where s: "s = p @ needle @ q" by (auto simp: sublist_def)
  show ?thesis
  proof (cases "list_all (\<lambda>c. (of_char c :: nat) < 0x80) s")
    case True
    have "map lower_byte needle = needle"
      using assms(3) by (simp add: map_idI lower_byte_fixed)
    then have "map lower_byte s = map lower_byte p @ needle @ map lower_byte q"
      by (simp add: s)
    with True show ?thesis by (simp add: ToLower_def)
  next
    case False
    then have "ToLower lowerCase s = Map (unicode_ToLower lowerCase) (p @ needle @ q)"
      by (simp only: ToLower_def if_False s)
    moreover have "sublist needle (Map (unicode_ToLower lowerCase) (p @ needle @ q))"
      using assms(2,3) by (rule sublist_Map)
    ultimately show ?thesis by simp
  qed
qed

lemma keyword_bytes:
  "\<forall>a \<in> set ''restart''. (of_char a :: nat) < 0x80 \<and>
      \<not> (65 \<le> (of_char a :: nat) \<and> (of_char a :: nat) \<le> 90)"
  "\<forall>a \<in> set ''pod''. (of_char a :: nat) < 0x80 \<and>
      \<not> (65 \<le> (of_char a :: nat) \<and> (of_char a :: nat) \<le> 90)"
  by simp_all

lemma generateMockResponse_restart:
  assumes "sublist ''restart'' prompt" and "sublist ''pod'' prompt"
  shows "generateMockResponse lowerCase prompt = restartResponse"
proof -
  have "sublist ''restart'' (ToLower lowerCase prompt)"
    using assms(1) by (rule sublist_ToLower) (simp_all add: keyword_bytes)
  moreover have "sublist ''pod'' (ToLower lowerCase prompt)"
    using assms(2) by (rule sublist_ToLower) (simp_all add: keyword_bytes)
  ultimately show ?thesis
    by (simp add: generateMockResponse_def Contains_def)
qed


lemma response_lengths:
  "length restartResponse = 379" "length diagnoseResponse = 455" "length scaleResponse = 233"
  by (simp_all add: restartResponse_def diagnoseResponse_def scaleResponse_def)

lemma generateMockResponse_cases:
  "generateMockResponse lowerCase prompt = restartResponse \<or>
   generateMockResponse lowerCase prompt = diagnoseResponse \<or>
   generateMockResponse lowerCase prompt = scaleResponse \<or>
   generateMockResponse lowerCase prompt = ''Mock AI response for prompt: '' @ prompt"
  by (simp add: generateMockResponse_def Let_def)

lemma generateMockResponse_length:
  "29 \<le> length (generateMockResponse lowerCase prompt)"
  using generateMockResponse_cases [of lowerCase prompt]
  by (auto simp: response_lengths)

lemma parseResponse_Commands_nonempty:
  "Commands (parseResponse p response originalQuery) \<noteq> []"
  by (simp add: parseResponse_def Let_def)

text \<open>
  C10. For every prompt, every options and every case table, the mock provider's Generate
  returns a response and no error. The content is one of the three prewritten answers or
  the echo of the prompt, never empty, and it is the restart answer whenever the prompt
  contains "restart" and "pod"; the model is "mock-v1", TokensUsed is the content length
  divided by 4 (at least 7) and FinishReason is "stop". The response does not depend on
  the options. Plan generation with the mock provider returns a plan, which is the parse
  of the mock's answer to the built prompt and has at least one command.
\<close>

theorem MockProvider_Generate_total:
  "(\<exists>r. MockProvider_Generate lowerCase prompt options = Inr r \<and>
         (Content r = restartResponse \<or> Content r = diagnoseResponse \<or>
          Content r = scaleResponse \<or>
          Content r = ''Mock AI response for prompt: '' @ prompt) \<and>
         (sublist ''restart'' prompt \<and> sublist ''pod'' prompt \<longrightarrow>
            Content r = restartResponse) \<and>
         Content r \<noteq> [] \<and>
         Response.Model r = ''mock-v1'' \<and>
         TokensUsed r = int (length (Content r)) div 4 \<and>
         7 \<le> TokensUsed r \<and>
         FinishReason r = ''stop'') \<and>
   MockProvider_Generate lowerCase prompt options =
     MockProvider_Generate lowerCase prompt options' \<and>
   (\<exists>pl. Generate \<lparr>Planner.aiProvider =
                        (\<lambda>prompt. MockProvider_Generate lowerCase prompt options),
                      Planner.namespace = ns, dryRun = d\<rparr> query = Inr pl \<and>
         pl = (parseResponse
                 \<lparr>Planner.aiProvider =
                    (\<lambda>prompt. MockProvider_Generate lowerCase prompt options),
                  Planner.namespace = ns, dryRun = d\<rparr>
                 (generateMockResponse lowerCase
                    (buildPrompt \<lparr>Planner.aiProvider =
                        (\<lambda>prompt. MockProvider_Generate lowerCase prompt options),
                      Planner.namespace = ns, dryRun = d\<rparr> query))
                 query)\<lparr>Plan.DryRun := d\<rparr> \<and>
         Plan.DryRun pl = d \<and> Commands pl \<noteq> [])"
proof -
  let ?content = "generateMockResponse lowerCase prompt"
  let ?r = "\<lparr>Content = ?content, Response.Model = ''mock-v1'',
            TokensUsed = int (length ?content) div 4, FinishReason = ''stop''\<rparr>"
  have gen: "MockProvider_Generate lowerCase prompt options = Inr ?r"
    by (simp add: MockProvider_Generate_def Let_def)
  have shape: "Content ?r = restartResponse \<or> Content ?r = diagnoseResponse \<or>
      Content ?r = scaleResponse \<or> Content ?r = ''Mock AI response for prompt: '' @ prompt"
    using generateMockResponse_cases [of lowerCase prompt] by simp
  have trig: "sublist ''restart'' prompt \<and> sublist ''pod'' prompt \<longrightarrow>
      Content ?r = restartResponse"
    by (simp add: generateMockResponse_restart)
  have len: "29 \<le> length ?content" by (rule generateMockResponse_length)
  then have ne: "Content ?r \<noteq> []" by auto
  from len have tok: "7 \<le> TokensUsed ?r" by simp
  have first: "\<exists>r. MockProvider_Generate lowerCase prompt options = Inr r \<and>
         (Content r = restartResponse \<or> Content r = diagnoseResponse \<or>
          Content r = scaleResponse \<or>
          Content r = ''Mock AI response for prompt: '' @ prompt) \<and>
         (sublist ''restart'' prompt \<and> sublist ''pod'' prompt \<longrightarrow>
            Content r = restartResponse) \<and>
         Content r \<noteq> [] \<and>
         Response.Model r = ''mock-v1'' \<and>
         TokensUsed r = int (length (Content r)) div 4 \<and>
         7 \<le> TokensUsed r \<and>
         FinishReason r = ''stop''"
    using gen shape trig ne tok by (intro exI [of _ ?r]) simp
  have second: "MockProvider_Generate lowerCase prompt options =
      MockProvider_Generate lowerCase prompt options'"
    by (simp add: MockProvider_Generate_def)
  let ?P = "\<lparr>Planner.aiProvider =
               (\<lambda>prompt. MockProvider_Generate lowerCase prompt options),
             Planner.namespace = ns, dryRun = d\<rparr>"
  let ?pl = "(parseResponse ?P (generateMockResponse lowerCase (buildPrompt ?P query)) query)
               \<lparr>Plan.DryRun := d\<rparr>"
  have g: "Generate ?P query = Inr ?pl"
    by (simp add: Generate_def MockProvider_Generate_def Let_def)
  have c: "Commands ?pl \<noteq> []"
    by (simp add: parseResponse_Commands_nonempty)
  have third: "\<exists>pl. Generate ?P query = Inr pl \<and> pl = ?pl \<and>
      Plan.DryRun pl = d \<and> Commands pl \<noteq> []"
    using g c by simp
  from first second third show ?thesis by (intro conjI)
qed

theorem MockProvider_Generate_total_witness:
  "\<forall>lowerCase.
     MockProvider_Generate lowerCase
       (''d'' @ [CHR 0xC4, CHR 0xB0] @ ''agnose, then restart the pod'') DefaultOptions =
     Inr \<lparr>Content = restartResponse, Response.Model = ''mock-v1'', TokensUsed = 94,
          FinishReason = ''stop''\<rparr>"
proof
  fix lowerCase :: "int \<Rightarrow> int"
  let ?prompt = "''d'' @ [CHR 0xC4, CHR 0xB0] @ ''agnose, then restart the pod''"
  have h: "sublist ''restart'' ?prompt \<and> sublist ''pod'' ?prompt" by code_simp
  from MockProvider_Generate_total [of lowerCase ?prompt DefaultOptions] obtain r
    where r: "MockProvider_Generate lowerCase ?prompt DefaultOptions = Inr r"
      and trig: "sublist ''restart'' ?prompt \<and> sublist ''pod'' ?prompt \<longrightarrow>
        Content r = restartResponse"
      and rest: "Response.Model r = ''mock-v1''"
        "TokensUsed r = int (length (Content r)) div 4" "FinishReason r = ''stop''"
    by blast
  from trig h have c: "Content r = restartResponse" by blast
  with rest have "r = \<lparr>Content = restartResponse, Response.Model = ''mock-v1'',
      TokensUsed = 94, FinishReason = ''stop''\<rparr>"
    by (cases r) (simp add: response_lengths)
  with r show "MockProvider_Generate lowerCase ?prompt DefaultOptions =
     Inr \<lparr>Content = restartResponse, Response.Model = ''mock-v1'', TokensUsed = 94,
          FinishReason = ''stop''\<rparr>"
    by simp
qed

section \<open>Properties of the diagnostics engine\<close>

text \<open>
  C1. The claim: every report of the single-pod inspection and of the namespace scan has
  a healthScore within [0,100]. The namespace scan floors its score at 0; the single-pod
  inspection subtracts and never floors. For the running pod with two containers that
  wait in CrashLoopBackOff after 7 restarts each, the score is 100 - 40 - 15 - 40 - 15,
  whatever the case table of the engine's provider.
\<close>

theorem diagnosePod_HealthScore_negative:
  "\<forall>lowerCase.
     (case diagnosePod (example_engine lowerCase) ''web'' of
        Inl err \<Rightarrow> None
      | Inr report \<Rightarrow> Some (HealthScore report)) = Some (- 10)"
proof
  fix lowerCase
  let ?r0 = "\<lparr>Report.Summary = ''Diagnostics for pod: web'', Issues = [],
              Remediations = [], HealthScore = 100\<rparr>"
  let ?r = "foldl (check_container ''web'') (check_phase ''web'' crashing_pod ?r0)
              (ContainerStatuses crashing_pod)"
  have score: "HealthScore ?r = - 10"
    by code_simp
  have get: "GetPod (example_engine lowerCase) ''web''
      (Engine.namespace (example_engine lowerCase)) = Inr crashing_pod"
    by (simp add: example_engine_def)
  show "(case diagnosePod (example_engine lowerCase) ''web'' of
        Inl err \<Rightarrow> None
      | Inr report \<Rightarrow> Some (HealthScore report)) = Some (- 10)"
    using score by (simp add: diagnosePod_def get Let_def)
qed

lemma sless_numeral_sint:
  "(3 <s (w :: 32 word)) = (3 < sint w)" "(10 <s (w :: 32 word)) = (10 < sint w)"
  by (simp_all add: word_sless_alt)

lemma scan_pod_spec:
  "scan_pod (k, r) pod =
     (if spec_problem_pod pod then (k + 1, r\<lparr>Issues := Issues r @ [pod_issue pod]\<rparr>)
      else (k, r))"
  by (simp add: scan_pod_def spec_problem_pod_def sless_numeral_sint)

lemma foldl_scan_pod:
  "foldl scan_pod (k, r) pods =
     (k + int (length (filter spec_problem_pod pods)),
      r\<lparr>Issues := Issues r @ map pod_issue (filter spec_problem_pod pods)\<rparr>)"
proof (induction pods arbitrary: k r)
  case Nil
  show ?case by simp
next
  case (Cons pod pods)
  show ?case
  proof (cases "spec_problem_pod pod")
    case True
    then have "foldl scan_pod (k, r) (pod # pods) =
        foldl scan_pod (k + 1, r\<lparr>Issues := Issues r @ [pod_issue pod]\<rparr>) pods"
      by (simp add: scan_pod_spec)
    also have "\<dots> = (k + 1 + int (length (filter spec_problem_pod pods)),
        r\<lparr>Issues := (Issues r @ [pod_issue pod]) @
             map pod_issue (filter spec_problem_pod pods)\<rparr>)"
      by (simp add: Cons.IH)
    finally show ?thesis using True by simp
  next
    case False
    then show ?thesis by (simp add: scan_pod_spec Cons.IH)
  qed
qed

lemma pod_issue_Severity:
  "Issue.Severity (pod_issue pod) =
     (if 10 < sint (Restarts pod) then SeverityHigh else SeverityMedium)"
  by (simp add: pod_issue_def Let_def sless_numeral_sint)

text \<open>The namespace scan keeps its score within the range.\<close>

lemma diagnoseAllPods_HealthScore_range:
  assumes "diagnoseAllPods e = Inr r"
  shows "0 \<le> HealthScore r \<and> HealthScore r \<le> 100"
proof (cases "GetPods e (Engine.namespace e)")
  case (Inl err)
  with assms show ?thesis by (simp add: diagnoseAllPods_def)
next
  case (Inr pods)
  let ?r0 = "\<lparr>Report.Summary = ''Cluster diagnostics'', Issues = [], Remediations = [],
              HealthScore = 100\<rparr>"
  have "foldl scan_pod (0, ?r0) pods =
      (int (length (filter spec_problem_pod pods)),
       ?r0\<lparr>Issues := map pod_issue (filter spec_problem_pod pods)\<rparr>)"
    by (simp add: foldl_scan_pod)
  with Inr assms
  have "HealthScore r = max 0 (100 - 10 * int (length (filter spec_problem_pod pods)))"
    by (auto simp: diagnoseAllPods_def Let_def max_def split: if_splits)
  then show ?thesis by simp
qed

text \<open>
  C8. For every pod list that the client returns, the namespace scan succeeds; its
  issues are one per problem pod, in the order of the pods (a problem pod: phase not
  Running, or not ready, or restarts over 3), each Medium, or High when the restarts
  exceed 10; the healthScore is 100 minus 10 times the number of problem pods, floored at
  0. In particular 10 pods with 3 problem pods, none with restarts over 10, give
  healthScore 70 and exactly 3 issues, all Medium.
\<close>

theorem diagnoseAllPods_problem_pods:
  assumes "GetPods e (Engine.namespace e) = Inr pods"
  shows "\<exists>r. diagnoseAllPods e = Inr r \<and>
     Issues r = map pod_issue (filter spec_problem_pod pods) \<and>
     (\<forall>pod. Issue.Severity (pod_issue pod) =
        (if 10 < sint (Restarts pod) then SeverityHigh else SeverityMedium)) \<and>
     HealthScore r = max 0 (100 - 10 * int (length (filter spec_problem_pod pods))) \<and>
     (length pods = 10 \<and> length (filter spec_problem_pod pods) = 3 \<and>
      (\<forall>pod \<in> set pods. \<not> 10 < sint (Restarts pod)) \<longrightarrow>
        HealthScore r = 70 \<and> length (Issues r) = 3 \<and>
        (\<forall>i \<in> set (Issues r). Issue.Severity i = SeverityMedium))"
proof -
  let ?n = "int (length (filter spec_problem_pod pods))"
  let ?issues = "map pod_issue (filter spec_problem_pod pods)"
  let ?score = "max 0 (100 - 10 * ?n)"
  let ?r0 = "\<lparr>Report.Summary = ''Cluster diagnostics'', Issues = [], Remediations = [],
              HealthScore = 100\<rparr>"
  have fold: "foldl scan_pod (0, ?r0) pods = (?n, ?r0\<lparr>Issues := ?issues\<rparr>)"
    by (simp add: foldl_scan_pod)
  obtain r where r: "diagnoseAllPods e = Inr r"
    and issues: "Issues r = ?issues" and score: "HealthScore r = ?score"
    using assms by (simp add: diagnoseAllPods_def fold Let_def max_def)
  have sev: "\<forall>pod. Issue.Severity (pod_issue pod) =
        (if 10 < sint (Restarts pod) then SeverityHigh else SeverityMedium)"
    by (simp add: pod_issue_Severity)
  have inst: "length pods = 10 \<and> length (filter spec_problem_pod pods) = 3 \<and>
      (\<forall>pod \<in> set pods. \<not> 10 < sint (Restarts pod)) \<longrightarrow>
        HealthScore r = 70 \<and> length (Issues r) = 3 \<and>
        (\<forall>i \<in> set (Issues r). Issue.Severity i = SeverityMedium)"
  proof
    assume h: "length pods = 10 \<and> length (filter spec_problem_pod pods) = 3 \<and>
      (\<forall>pod \<in> set pods. \<not> 10 < sint (Restarts pod))"
    then have "HealthScore r = 70" using score by simp
    moreover have "length (Issues r) = 3" using h issues by simp
    moreover have "\<forall>i \<in> set (Issues r). Issue.Severity i = SeverityMedium"
      using h issues by (auto simp: pod_issue_Severity)
    ultimately show "HealthScore r = 70 \<and> length (Issues r) = 3 \<and>
        (\<forall>i \<in> set (Issues r). Issue.Severity i = SeverityMedium)" by blast
  qed
  from r issues sev score inst show ?thesis by blast
qed

theorem diagnoseAllPods_problem_pods_witness:
  "length ten_pods = 10 \<and> length (filter spec_problem_pod ten_pods) = 3 \<and>
   (\<forall>lowerCase. \<exists>r. diagnoseAllPods (example_engine lowerCase) = Inr r \<and>
        HealthScore r = 70 \<and> length (Issues r) = 3 \<and>
        (\<forall>i \<in> set (Issues r). Issue.Severity i = SeverityMedium))"
proof -
  have l: "length ten_pods = 10" by (simp add: ten_pods_def)
  have "filter spec_problem_pod ten_pods =
      [pod_info ''h'' ''Pending'' True 0, pod_info ''i'' ''Running'' False 0,
       pod_info ''j'' ''Running'' True 4]"
    by code_simp
  then have p: "length (filter spec_problem_pod ten_pods) = 3" by simp
  have "list_all (\<lambda>pod. \<not> 10 < sint (Restarts pod)) ten_pods" by code_simp
  then have s: "\<forall>pod \<in> set ten_pods. \<not> 10 < sint (Restarts pod)"
    by (simp only: list_all_iff)
  have ex: "\<exists>r. diagnoseAllPods (example_engine lowerCase) = Inr r \<and>
        HealthScore r = 70 \<and> length (Issues r) = 3 \<and>
        (\<forall>i \<in> set (Issues r). Issue.Severity i = SeverityMedium)"
    for lowerCase :: "int \<Rightarrow> int"
  proof -
    have g: "GetPods (example_engine lowerCase) (Engine.namespace (example_engine lowerCase)) =
        Inr ten_pods"
      by (simp add: example_engine_def)
    from diagnoseAllPods_problem_pods [OF g] obtain r
      where r: "diagnoseAllPods (example_engine lowerCase) = Inr r"
        and imp: "length ten_pods = 10 \<and> length (filter spec_problem_pod ten_pods) = 3 \<and>
          (\<forall>pod \<in> set ten_pods. \<not> 10 < sint (Restarts pod)) \<longrightarrow>
          HealthScore r = 70 \<and> length (Issues r) = 3 \<and>
          (\<forall>i \<in> set (Issues r). Issue.Severity i = SeverityMedium)"
      by blast
    from imp l p s have "HealthScore r = 70 \<and> length (Issues r) = 3 \<and>
          (\<forall>i \<in> set (Issues r). Issue.Severity i = SeverityMedium)" by blast
    with r show ?thesis by blast
  qed
  from l p ex show ?thesis by blast
qed

section \<open>Properties of the extension registry\<close>

lemma RunAnalysis_loop_issues:
  "fst (RunAnalysis_loop ps resource (allIssues, out)) =
     allIssues @ concat (map (contributed resource) ps)"
proof (induction ps arbitrary: allIssues out)
  case Nil
  show ?case by simp
next
  case (Cons plugin rest)
  show ?case
  proof (cases "Analyze plugin resource")
    case (Inl err)
    then show ?thesis by (simp add: Cons.IH contributed_def)
  next
    case (Inr issues)
    then show ?thesis by (simp add: Cons.IH contributed_def)
  qed
qed

lemma sublist_concat_member:
  assumes "xs \<in> set xss"
  shows "sublist xs (concat xss)"
proof -
  from assms obtain as bs where "xss = as @ xs # bs"
    by (auto dest: split_list)
  then have "concat xss = concat as @ xs @ concat bs" by simp
  then show ?thesis by (simp only: sublist_appendI)
qed

lemma map_filter_registered:
  assumes "set keys = dom m" "m name = Some plugin"
  shows "plugin \<in> set (List.map_filter m keys)"
proof -
  from assms have "name \<in> set keys" by auto
  with assms(2) show ?thesis
    by (force simp: List.map_filter_def)
qed

text \<open>
  C9. For every registry and resource, with the names visited in any order that holds
  each registered name once, runAnalysis succeeds, and its result is the concatenation,
  in that order, of the issue lists of the plugins whose analyze call succeeds: a failing
  plugin contributes nothing, and the issues of every registered plugin that succeeds are
  in the result, together and in their order.
\<close>

theorem RunAnalysis_concatenates_successes:
  assumes "distinct keys" and "set keys = dom (plugins m)"
  shows "\<exists>issues. fst (RunAnalysis m keys resource) = Inr issues \<and>
     issues = concat (map (contributed resource) (List.map_filter (plugins m) keys)) \<and>
     (\<forall>name plugin found.
        plugins m name = Some plugin \<and> Analyze plugin resource = Inr found \<longrightarrow>
        sublist found issues)"
proof -
  let ?ps = "List.map_filter (plugins m) keys"
  let ?issues = "concat (map (contributed resource) ?ps)"
  have loop: "fst (RunAnalysis_loop ?ps resource ([], [])) = ?issues"
    by (simp add: RunAnalysis_loop_issues)
  have res: "fst (RunAnalysis m keys resource) = Inr ?issues"
  proof (cases "RunAnalysis_loop ?ps resource ([], [])")
    case (Pair allIssues out)
    with loop show ?thesis by (simp add: RunAnalysis_def)
  qed
  have "sublist found ?issues"
    if "plugins m name = Some plugin" "Analyze plugin resource = Inr found"
    for name plugin found
  proof -
    from assms(2) that(1) have "plugin \<in> set ?ps" by (rule map_filter_registered)
    then have "contributed resource plugin \<in> set (map (contributed resource) ?ps)" by simp
    then have "sublist (contributed resource plugin) ?issues" by (rule sublist_concat_member)
    with that(2) show ?thesis by (simp add: contributed_def)
  qed
  with res show ?thesis by blast
qed

theorem RunAnalysis_concatenates_successes_witness:
  "fst (RunAnalysis example_manager [''third'', ''second'', ''first''] ()) =
     Inr [example_issue ''t1'', example_issue ''t2'', example_issue ''f1''] \<and>
   sublist [example_issue ''f1'']
     [example_issue ''t1'', example_issue ''t2'', example_issue ''f1'']"
proof -
  have d: "distinct [''third'', ''second'', ''first'']" by simp
  have k: "set [''third'', ''second'', ''first''] = dom (plugins example_manager)"
    by (auto simp: example_manager_def)
  have c: "concat (map (contributed ())
      (List.map_filter (plugins example_manager) [''third'', ''second'', ''first''])) =
      [example_issue ''t1'', example_issue ''t2'', example_issue ''f1'']"
    by (simp add: List.map_filter_def example_manager_def example_plugin_def contributed_def)
  have reg: "plugins example_manager ''first'' =
      Some (example_plugin ''first'' (Inr [example_issue ''f1'']))"
    by (simp add: example_manager_def)
  have ok: "Analyze (example_plugin ''first'' (Inr [example_issue ''f1''])) () =
      Inr [example_issue ''f1'']"
    by (simp add: example_plugin_def)
  from RunAnalysis_concatenates_successes [OF d k, of "()"] obtain issues
    where res: "fst (RunAnalysis example_manager [''third'', ''second'', ''first''] ()) =
        Inr issues"
      and eq: "issues = concat (map (contributed ())
        (List.map_filter (plugins example_manager) [''third'', ''second'', ''first'']))"
      and inc: "\<forall>name plugin found.
        plugins example_manager name = Some plugin \<and> Analyze plugin () = Inr found \<longrightarrow>
        sublist found issues"
    by blast
  from inc reg ok have "sublist [example_issue ''f1''] issues" by blast
  with res eq c show ?thesis by simp
qed

section \<open>Properties of the plan pipeline\<close>

text \<open>
  C3. The claim: a plan that the pipeline builds in dry-run mode is executed by recording
  every command as a preview entry marked \<open>[DRY-RUN]\<close>. The pipeline gives every command
  the planner's flag, and \<open>Execute\<close> marks a command only when the plan is in dry-run
  mode and the command's own flag is off; so for the plan below, built in dry-run mode,
  the one command is recorded unmarked, on the path where it is to be run.
\<close>

theorem Execute_dry_run_plan_unmarked:
  "(case Generate dry_run_planner ''delete the web pod'' of
      Inl err \<Rightarrow> None
    | Inr pl \<Rightarrow>
        Some (Plan.DryRun pl, map Command.DryRun (Commands pl),
              ExecutedCommands (Execute pl))) =
   Some (True, [True], [''kubectl delete pod web''])"
  by code_simp

text \<open>
  The same holds for every plan of the pipeline in dry-run mode: each command carries the
  planner's flag, so \<open>Execute\<close> records every command unmarked.
\<close>

lemma scan_line_DryRun:
  assumes "\<forall>c \<in> set (Commands (plan st)). Command.DryRun c = dryRun p"
  shows "\<forall>c \<in> set (Commands (plan (scan_line p st raw))). Command.DryRun c = dryRun p"
  using assms
  by (simp add: scan_line_def parse_warning_def parse_command_def Let_def)

lemma foldl_scan_line_DryRun:
  assumes "\<forall>c \<in> set (Commands (plan st)). Command.DryRun c = dryRun p"
  shows "\<forall>c \<in> set (Commands (plan (foldl (scan_line p) st ls))). Command.DryRun c = dryRun p"
  using assms
proof (induction ls arbitrary: st)
  case Nil
  then show ?case by simp
next
  case (Cons l ls)
  from Cons.prems
  have "\<forall>c \<in> set (Commands (plan (scan_line p st l))). Command.DryRun c = dryRun p"
    by (rule scan_line_DryRun)
  then have "\<forall>c \<in> set (Commands (plan (foldl (scan_line p) (scan_line p st l) ls))).
      Command.DryRun c = dryRun p"
    by (rule Cons.IH)
  then show ?case by simp
qed

lemma parseResponse_DryRun:
  "\<forall>c \<in> set (Commands (parseResponse p response originalQuery)).
     Command.DryRun c = dryRun p"
proof -
  have "\<forall>c \<in> set (Commands (plan (scan_response p response originalQuery))).
      Command.DryRun c = dryRun p"
    unfolding scan_response_def by (rule foldl_scan_line_DryRun) simp
  then show ?thesis by (simp add: parseResponse_def Let_def)
qed

lemma foldl_execute_command_unmarked:
  assumes "\<forall>c \<in> set cs. Command.DryRun c"
  shows "ExecutedCommands (foldl (execute_command pl) result cs) =
     ExecutedCommands result @ map Command.Command cs"
  using assms by (induction cs arbitrary: result) (simp_all add: execute_command_def)

lemma Generate_dry_run_unmarked:
  assumes "dryRun p" and "Generate p query = Inr pl"
  shows "ExecutedCommands (Execute pl) = map Command.Command (Commands pl)"
proof -
  from assms(2) obtain response :: Response where
    pl: "pl = (parseResponse p (Content response) query)\<lparr>Plan.DryRun := dryRun p\<rparr>"
    by (auto simp: Generate_def Let_def split: sum.splits)
  have "\<forall>c \<in> set (Commands pl). Command.DryRun c"
    using parseResponse_DryRun [of p "Content response" query] assms(1) pl by simp
  then show ?thesis
    by (simp add: Execute_def foldl_execute_command_unmarked)
qed

text \<open>
  C7. When the scan of the response extracts no command, the plan that \<open>parseResponse\<close>
  returns has exactly one command, the placeholder that names the query, and it is
  marked safe.
\<close>

theorem parseResponse_placeholder:
  assumes "Commands (plan (scan_response p response originalQuery)) = []"
  shows "Commands (parseResponse p response originalQuery) =
           [\<lparr>Command.Command = ''# Generated from: '' @ originalQuery,
             Command.Description = ''See AI response for details'',
             Command.Safe = True, Command.DryRun = dryRun p\<rparr>] \<and>
         length (Commands (parseResponse p response originalQuery)) = 1 \<and>
         (\<forall>c \<in> set (Commands (parseResponse p response originalQuery)). Command.Safe c)"
  using assms by (simp add: parseResponse_def Let_def)

theorem parseResponse_placeholder_witness:
  "Commands (parseResponse dry_run_planner indented_response ''q'') =
     [\<lparr>Command.Command = ''# Generated from: q'',
       Command.Description = ''See AI response for details'',
       Command.Safe = True, Command.DryRun = True\<rparr>] \<and>
   Plan.Warnings (parseResponse dry_run_planner indented_response ''q'') = [''a | b'']"
proof -
  have h: "Commands (plan (scan_response dry_run_planner indented_response ''q'')) = []"
    by code_simp
  have d: "dryRun dry_run_planner = True" by (simp add: dry_run_planner_def)
  have w: "Plan.Warnings (parseResponse dry_run_planner indented_response ''q'') = [''a | b'']"
    by code_simp
  from parseResponse_placeholder [OF h] d w show ?thesis by simp
qed

text \<open>
  White space outside ASCII is trimmed like a blank: a \<open>kubectl\<close> line behind a
  no-break space is a command line, and the warning behind it is kept.
\<close>

lemma parseResponse_unicode_indent:
  "map Command.Command (Commands (parseResponse dry_run_planner
     (nbsp @ ''kubectl get pods | list pods\<newline>WARNINGS:\<newline>- careful'' @ emsp) ''q'')) =
     [''kubectl get pods''] \<and>
   Plan.Warnings (parseResponse dry_run_planner
     (nbsp @ ''kubectl get pods | list pods\<newline>WARNINGS:\<newline>- careful'' @ emsp) ''q'') =
     [''careful'']"
  by code_simp

text \<open>
  The scanner, line by line: what a step does to the \<open>inCommands\<close> flag and to the number
  of commands, then the three stretches of a response (before the COMMANDS line, inside
  the block, after the block).
\<close>

lemma length_Split: "length (Split s sep) = Suc (length (filter (\<lambda>c. c = sep) s))"
proof (induction s)
  case Nil
  show ?case by simp
next
  case (Cons c cs)
  show ?case
  proof (cases "Split cs sep")
    case Nil
    with Cons.IH show ?thesis by simp
  next
    case (Cons w ws)
    with Cons.IH show ?thesis by simp
  qed
qed

lemma Split_two_parts: "(2 \<le> length (Split s sep)) = (sep \<in> set s)"
proof -
  have "(2 \<le> length (Split s sep)) = (filter (\<lambda>c. c = sep) s \<noteq> [])"
    by (simp add: length_Split Suc_le_eq)
  also have "\<dots> = (sep \<in> set s)"
    by (auto simp: filter_empty_conv)
  finally show ?thesis .
qed

lemma HasPrefix_hd:
  assumes "HasPrefix t a" "HasPrefix t b" "a \<noteq> []" "b \<noteq> []"
  shows "hd a = hd b"
proof -
  from assms(1,3) have "hd a = hd t"
    by (metis HasPrefix_def hd_take length_greater_0_conv)
  moreover from assms(2,4) have "hd b = hd t"
    by (metis HasPrefix_def hd_take length_greater_0_conv)
  ultimately show ?thesis by simp
qed

lemma marker_clash:
  "HasPrefix t ''COMMANDS:'' \<Longrightarrow> \<not> HasPrefix t ''SUMMARY:''"
  "HasPrefix t ''WARNINGS:'' \<Longrightarrow> \<not> HasPrefix t ''SUMMARY:''"
  "HasPrefix t ''WARNINGS:'' \<Longrightarrow> \<not> HasPrefix t ''COMMANDS:''"
  "HasPrefix t ''-'' \<Longrightarrow> \<not> HasPrefix t ''SUMMARY:''"
  "HasPrefix t ''-'' \<Longrightarrow> \<not> HasPrefix t ''COMMANDS:''"
  "HasPrefix t ''-'' \<Longrightarrow> \<not> HasPrefix t ''WARNINGS:''"
  "HasPrefix t ''kubectl'' \<Longrightarrow> \<not> HasPrefix t ''SUMMARY:''"
  "HasPrefix t ''kubectl'' \<Longrightarrow> \<not> HasPrefix t ''COMMANDS:''"
  "HasPrefix t ''kubectl'' \<Longrightarrow> \<not> HasPrefix t ''WARNINGS:''"
  using HasPrefix_hd [of t "''COMMANDS:''" "''SUMMARY:''"]
    HasPrefix_hd [of t "''WARNINGS:''" "''SUMMARY:''"]
    HasPrefix_hd [of t "''WARNINGS:''" "''COMMANDS:''"]
    HasPrefix_hd [of t "''-''" "''SUMMARY:''"]
    HasPrefix_hd [of t "''-''" "''COMMANDS:''"]
    HasPrefix_hd [of t "''-''" "''WARNINGS:''"]
    HasPrefix_hd [of t "''kubectl''" "''SUMMARY:''"]
    HasPrefix_hd [of t "''kubectl''" "''COMMANDS:''"]
    HasPrefix_hd [of t "''kubectl''" "''WARNINGS:''"]
  by auto

lemma marker_not_command:
  assumes "COMMANDS_marker raw \<or> WARNINGS_marker raw"
  shows "\<not> dash_command_line raw" "\<not> kubectl_command_line raw"
  using assms marker_clash [of "TrimSpace raw"]
  by (auto simp: COMMANDS_marker_def WARNINGS_marker_def dash_command_line_def
      kubectl_command_line_def)

lemma parse_warning_keeps:
  "inCommands (parse_warning line st) = inCommands st"
  "Commands (plan (parse_warning line st)) = Commands (plan st)"
  by (simp_all add: parse_warning_def Let_def)

lemma parse_command_inCommands:
  "inCommands (parse_command p line st) = inCommands st"
  by (simp add: parse_command_def Let_def)

lemma parse_command_count:
  "length (Commands (plan (parse_command p line st))) =
     length (Commands (plan st)) +
     (if ((inCommands st \<and> HasPrefix line ''-'') \<or> HasPrefix line ''kubectl'') \<and>
         CHR ''|'' \<in> set line then 1 else 0)"
  by (simp add: parse_command_def Let_def Split_two_parts)

lemma scan_line_inCommands:
  "inCommands (scan_line p st raw) =
     (if COMMANDS_marker raw then True
      else if WARNINGS_marker raw then False
      else inCommands st)"
  using marker_clash [of "TrimSpace raw"]
  by (auto simp: scan_line_def Let_def COMMANDS_marker_def WARNINGS_marker_def
      parse_warning_keeps parse_command_inCommands)

lemma scan_line_count:
  "length (Commands (plan (scan_line p st raw))) =
     length (Commands (plan st)) +
     (if (inCommands st \<and> dash_command_line raw) \<or> kubectl_command_line raw
      then 1 else 0)"
  using marker_clash [of "TrimSpace raw"]
  by (auto simp: scan_line_def Let_def dash_command_line_def kubectl_command_line_def
      parse_warning_keeps parse_command_count)

lemma scan_outside_block:
  assumes "\<forall>l \<in> set ls. \<not> COMMANDS_marker l" and "\<not> inCommands st"
  shows "\<not> inCommands (foldl (scan_line p) st ls) \<and>
     length (Commands (plan (foldl (scan_line p) st ls))) =
       length (Commands (plan st)) + length (filter kubectl_command_line ls)"
  using assms
proof (induction ls arbitrary: st)
  case Nil
  then show ?case by simp
next
  case (Cons l ls)
  have off: "\<not> inCommands (scan_line p st l)"
    using Cons.prems by (simp add: scan_line_inCommands)
  have rest: "\<forall>l \<in> set ls. \<not> COMMANDS_marker l"
    using Cons.prems by simp
  from rest off have "\<not> inCommands (foldl (scan_line p) (scan_line p st l) ls) \<and>
     length (Commands (plan (foldl (scan_line p) (scan_line p st l) ls))) =
       length (Commands (plan (scan_line p st l))) + length (filter kubectl_command_line ls)"
    by (rule Cons.IH)
  moreover have "length (Commands (plan (scan_line p st l))) =
      length (Commands (plan st)) + (if kubectl_command_line l then 1 else 0)"
    using Cons.prems by (simp add: scan_line_count)
  ultimately show ?case by simp
qed

lemma scan_inside_block:
  assumes "\<forall>l \<in> set ls. \<not> WARNINGS_marker l" and "inCommands st"
  shows "inCommands (foldl (scan_line p) st ls) \<and>
     length (Commands (plan (foldl (scan_line p) st ls))) =
       length (Commands (plan st)) +
       length (filter (\<lambda>l. dash_command_line l \<or> kubectl_command_line l) ls)"
  using assms
proof (induction ls arbitrary: st)
  case Nil
  then show ?case by simp
next
  case (Cons l ls)
  have on: "inCommands (scan_line p st l)"
    using Cons.prems by (simp add: scan_line_inCommands)
  have rest: "\<forall>l \<in> set ls. \<not> WARNINGS_marker l"
    using Cons.prems by simp
  from rest on have "inCommands (foldl (scan_line p) (scan_line p st l) ls) \<and>
     length (Commands (plan (foldl (scan_line p) (scan_line p st l) ls))) =
       length (Commands (plan (scan_line p st l))) +
       length (filter (\<lambda>l. dash_command_line l \<or> kubectl_command_line l) ls)"
    by (rule Cons.IH)
  moreover have "length (Commands (plan (scan_line p st l))) =
      length (Commands (plan st)) +
      (if dash_command_line l \<or> kubectl_command_line l then 1 else 0)"
    using Cons.prems by (simp add: scan_line_count)
  ultimately show ?case by simp
qed

lemma scan_after_block:
  assumes "post = [] \<or> (WARNINGS_marker (hd post) \<and> (\<forall>l \<in> set post. \<not> COMMANDS_marker l))"
  shows "length (Commands (plan (foldl (scan_line p) st post))) =
       length (Commands (plan st)) + length (filter kubectl_command_line post)"
proof (cases post)
  case Nil
  then show ?thesis by simp
next
  case (Cons w rest)
  with assms have w: "WARNINGS_marker w" and nc: "\<not> COMMANDS_marker w"
    and rest: "\<forall>l \<in> set rest. \<not> COMMANDS_marker l"
    by simp_all
  from w nc have off: "\<not> inCommands (scan_line p st w)"
    by (simp add: scan_line_inCommands)
  from w have nk: "\<not> dash_command_line w" "\<not> kubectl_command_line w"
    by (simp_all add: marker_not_command)
  then have same: "length (Commands (plan (scan_line p st w))) = length (Commands (plan st))"
    by (simp add: scan_line_count)
  from scan_outside_block [OF rest off, of p] same nk Cons show ?thesis by simp
qed

text \<open>
  C4, as amended. Take a response whose lines are: lines with no COMMANDS marker, the
  COMMANDS line, a block of lines with no WARNINGS marker, and then nothing or a WARNINGS
  line followed by lines with no COMMANDS marker. The number of commands that the scan
  extracts is the number of lines of the block that begin with a dash or with \<open>kubectl\<close>
  and hold the separator, plus the number of lines outside the block that begin with
  \<open>kubectl\<close> and hold the separator. Lines without separator are not counted, and a
  line outside the block that does not begin with \<open>kubectl\<close> is not parsed as a command.
\<close>

theorem scan_response_command_count:
  assumes "Split response (CHR 0x0A) = pre @ hdr # block @ post"
    and "\<forall>l \<in> set pre. \<not> COMMANDS_marker l"
    and "COMMANDS_marker hdr"
    and "\<forall>l \<in> set block. \<not> WARNINGS_marker l"
    and "post = [] \<or> (WARNINGS_marker (hd post) \<and> (\<forall>l \<in> set post. \<not> COMMANDS_marker l))"
  shows "length (Commands (plan (scan_response p response originalQuery))) =
           length (filter (\<lambda>l. dash_command_line l \<or> kubectl_command_line l) block) +
           length (filter kubectl_command_line (pre @ post)) \<and>
         (0 < length (Commands (plan (scan_response p response originalQuery))) \<longrightarrow>
            Commands (parseResponse p response originalQuery) =
            Commands (plan (scan_response p response originalQuery)))"
proof -
  let ?st0 = "\<lparr>inCommands = False, inWarnings = False,
        plan = \<lparr>Plan.Summary = ''Execution plan for: '' @ originalQuery, Commands = [],
                Plan.Warnings = [], RequiresAuth = False, Plan.DryRun = dryRun p\<rparr>\<rparr>"
  let ?st1 = "foldl (scan_line p) ?st0 pre"
  let ?st2 = "scan_line p ?st1 hdr"
  let ?st3 = "foldl (scan_line p) ?st2 block"
  let ?st4 = "foldl (scan_line p) ?st3 post"
  have run: "scan_response p response originalQuery = ?st4"
    by (simp add: scan_response_def assms(1))
  have s1: "length (Commands (plan ?st1)) = length (filter kubectl_command_line pre)"
    using scan_outside_block [OF assms(2), of ?st0 p] by simp
  have nk: "\<not> dash_command_line hdr" "\<not> kubectl_command_line hdr"
    using assms(3) by (simp_all add: marker_not_command)
  have on: "inCommands ?st2"
    using assms(3) by (simp add: scan_line_inCommands)
  have s2: "length (Commands (plan ?st2)) = length (Commands (plan ?st1))"
    using nk by (simp add: scan_line_count)
  have s3: "length (Commands (plan ?st3)) = length (Commands (plan ?st2)) +
      length (filter (\<lambda>l. dash_command_line l \<or> kubectl_command_line l) block)"
    using scan_inside_block [OF assms(4) on] by simp
  have s4: "length (Commands (plan ?st4)) = length (Commands (plan ?st3)) +
      length (filter kubectl_command_line post)"
    using assms(5) by (rule scan_after_block)
  from run s1 s2 s3 s4
  have count: "length (Commands (plan (scan_response p response originalQuery))) =
           length (filter (\<lambda>l. dash_command_line l \<or> kubectl_command_line l) block) +
           length (filter kubectl_command_line (pre @ post))"
    by simp
  have keep: "0 < length (Commands (plan (scan_response p response originalQuery))) \<longrightarrow>
            Commands (parseResponse p response originalQuery) =
            Commands (plan (scan_response p response originalQuery))"
    by (simp add: parseResponse_def Let_def)
  from count keep show ?thesis by (rule conjI)
qed

theorem scan_response_command_count_witness:
  "length (Commands (plan (scan_response dry_run_planner mixed_response ''q''))) = 2 \<and>
   length (Commands (parseResponse dry_run_planner mixed_response ''q'')) = 2"
proof -
  let ?pre = "[''SUMMARY: Inspect the cluster'', nbsp @ ''kubectl get pods | list the pods'']"
  let ?hdr = "''COMMANDS:'' @ emsp"
  let ?block = "[emsp @ ''- kubectl get nodes | list the nodes | true'',
                 ''- no separator here'']"
  let ?post = "[nbsp @ ''WARNINGS:'', ''- read only'']"
  have a1: "Split mixed_response (CHR 0x0A) = ?pre @ ?hdr # ?block @ ?post"
    by code_simp
  have "list_all (\<lambda>l. \<not> COMMANDS_marker l) ?pre" by code_simp
  then have a2: "\<forall>l \<in> set ?pre. \<not> COMMANDS_marker l" by (simp only: list_all_iff)
  have a3: "COMMANDS_marker ?hdr" by code_simp
  have "list_all (\<lambda>l. \<not> WARNINGS_marker l) ?block" by code_simp
  then have a4: "\<forall>l \<in> set ?block. \<not> WARNINGS_marker l" by (simp only: list_all_iff)
  have w: "WARNINGS_marker (hd ?post)" by code_simp
  have "list_all (\<lambda>l. \<not> COMMANDS_marker l) ?post" by code_simp
  then have "\<forall>l \<in> set ?post. \<not> COMMANDS_marker l" by (simp only: list_all_iff)
  with w have a5: "?post = [] \<or>
      (WARNINGS_marker (hd ?post) \<and> (\<forall>l \<in> set ?post. \<not> COMMANDS_marker l))"
    by blast
  have c1: "length (filter (\<lambda>l. dash_command_line l \<or> kubectl_command_line l) ?block) = 1"
    by code_simp
  have c2: "length (filter kubectl_command_line (?pre @ ?post)) = 1"
    by code_simp
  note count = scan_response_command_count [OF a1 a2 a3 a4 a5, of dry_run_planner "''q''"]
  from count
  have "length (Commands (plan (scan_response dry_run_planner mixed_response ''q''))) =
      length (filter (\<lambda>l. dash_command_line l \<or> kubectl_command_line l) ?block) +
      length (filter kubectl_command_line (?pre @ ?post))"
    by (rule conjunct1)
  then have n: "length (Commands (plan (scan_response dry_run_planner mixed_response ''q''))) = 2"
    unfolding c1 c2 by simp
  from count
  have "0 < length (Commands (plan (scan_response dry_run_planner mixed_response ''q''))) \<longrightarrow>
      Commands (parseResponse dry_run_planner mixed_response ''q'') =
      Commands (plan (scan_response dry_run_planner mixed_response ''q''))"
    by (rule conjunct2)
  with n have "Commands (parseResponse dry_run_planner mixed_response ''q'') =
      Commands (plan (scan_response dry_run_planner mixed_response ''q''))"
    by simp
  with n show ?thesis by simp
qed

text \<open>
  C4, the claim as stated fails: in the response below the COMMANDS block has one
  well-formed dash line, and the line in front of the block, read outside the InCommands
  state, is parsed as a command too.
\<close>

theorem parseResponse_kubectl_line_outside_block:
  "Split stray_response (CHR 0x0A) =
     [''kubectl get pods | list the pods'', ''COMMANDS:'',
      ''- kubectl get nodes | list the nodes | true'', ''- no separator here''] \<and>
   map Command.Command (Commands (parseResponse dry_run_planner stray_response ''q'')) =
     [''kubectl get pods'', ''kubectl get nodes'']"
  by code_simp

end
